theory Spec2Isabelle
  imports Complex_Main
begin

section \<open>Strings\<close>

text \<open>
  A Python \<open>str\<close> is a sequence of code points. The model writes it as a \<open>string\<close>
  whose characters stand for the code points below 256, which covers every string the
  script itself builds and every chain name, method name and number it compares with.
\<close>

definition code :: "char \<Rightarrow> nat" where
  "code c = of_char c"

text \<open>\<open>str.isspace\<close> on one code point below 256.\<close>

definition isspace :: "char \<Rightarrow> bool" where
  "isspace c = (code c \<in> {9, 10, 11, 12, 13, 28, 29, 30, 31, 32, 133, 160})"

text \<open>\<open>str.strip()\<close>: whitespace is removed at both ends.\<close>

definition strip :: "string \<Rightarrow> string" where
  "strip s = rev (dropWhile isspace (rev (dropWhile isspace s)))"

text \<open>\<open>str.lower()\<close> on one code point below 256: A-Z and the capital letters of Latin-1.\<close>

definition lower_char :: "char \<Rightarrow> char" where
  "lower_char c =
     (if (65 \<le> code c \<and> code c \<le> 90) \<or> (192 \<le> code c \<and> code c \<le> 222 \<and> code c \<noteq> 215)
      then char_of (code c + 32) else c)"

definition lower :: "string \<Rightarrow> string" where
  "lower s = map lower_char s"

text \<open>\<open>sep.join(xs)\<close>.\<close>

fun join :: "string \<Rightarrow> string list \<Rightarrow> string" where
  "join sep [] = []"
| "join sep [x] = x"
| "join sep (x # y # ys) = x @ sep @ join sep (y # ys)"

section \<open>Effects of the script\<close>

text \<open>
  The script prints to standard output and runs one subprocess. Both are recorded, in
  order, in a trace. \<open>Print s\<close> is one call \<open>print(s)\<close>; \<open>Run cmd t\<close> is one call
  \<open>subprocess.run(cmd, capture_output=True, text=True, timeout=t)\<close>.
\<close>

datatype event = Print string | Run "string list" nat

text \<open>The exceptions that can leave a function of the script.\<close>

datatype exn = ValueError | OverflowError | TimeoutExpired | OSError

text \<open>The \<open>CompletedProcess\<close> that \<open>subprocess.run\<close> returns.\<close>

record completed =
  returncode :: int
  stdout :: string
  stderr :: string

text \<open>
  The external tool is a parameter: given the command and the timeout, the call either
  raises (\<open>TimeoutExpired\<close> when the timeout elapses, \<open>OSError\<close> when the binary cannot be
  started) or returns a completed process.
\<close>

type_synonym tool = "string list \<Rightarrow> nat \<Rightarrow> exn + completed"

text \<open>
  A Python \<open>float\<close> is a binary64 value: a finite one is written as the rational number
  it stands for (the sign of zero is not kept: the script only ever converts a float to
  an integer), the others are the two infinities and not-a-number.
\<close>

datatype pyfloat = Finite rat | PInf | NInf | NaN

text \<open>A function of the script yields its trace and either an exception or its result.\<close>

type_synonym 'a io = "event list \<times> (exn + 'a)"

definition invocations :: "event list \<Rightarrow> string list list" where
  "invocations es = concat (map (\<lambda>e. case e of Run cmd t \<Rightarrow> [cmd] | Print s \<Rightarrow> []) es)"

definition timeouts :: "event list \<Rightarrow> nat list" where
  "timeouts es = concat (map (\<lambda>e. case e of Run cmd t \<Rightarrow> [t] | Print s \<Rightarrow> []) es)"

definition printed :: "event list \<Rightarrow> string list" where
  "printed es = concat (map (\<lambda>e. case e of Print s \<Rightarrow> [s] | Run cmd t \<Rightarrow> []) es)"

text \<open>A command line is in query mode when it carries the flag \<open>--query\<close>.\<close>

definition query_mode :: "string list \<Rightarrow> bool" where
  "query_mode cmd = (''--query'' \<in> set cmd)"

section \<open>The script\<close>

definition CANISTER_ID :: string where
  "CANISTER_ID = ''urs2a-ziaaa-aaaad-aembq-cai''"

definition NETWORK :: string where
  "NETWORK = ''ic''"

text \<open>\<open>cmd.insert(i, x)\<close>.\<close>

definition list_insert :: "nat \<Rightarrow> 'a \<Rightarrow> 'a list \<Rightarrow> 'a list" where
  "list_insert i x xs = take i xs @ [x] @ drop i xs"

text \<open>
  \<open>dfx_call(method, args="()", is_query=False)\<close>. The model takes all three arguments;
  a caller that leaves one out passes the default. \<open>dfx_cmd\<close> is the command list the
  function builds, \<open>dfx_output\<close> the string it returns for a completed process.
\<close>

definition dfx_cmd :: "string \<Rightarrow> string \<Rightarrow> bool \<Rightarrow> string list" where
  "dfx_cmd method args is_query =
     (let cmd = [''dfx'', ''canister'', ''call'', ''--network'', NETWORK, CANISTER_ID, method, args]
      in if is_query then list_insert 3 ''--query'' cmd else cmd)"

definition dfx_output :: "completed \<Rightarrow> string" where
  "dfx_output result =
     (if returncode result \<noteq> 0 then ''ERROR: '' @ strip (stderr result)
      else strip (stdout result))"

definition dfx_call :: "tool \<Rightarrow> string \<Rightarrow> string \<Rightarrow> bool \<Rightarrow> string io" where
  "dfx_call run method args is_query =
     (let cmd = dfx_cmd method args is_query
      in ([Run cmd 120],
          case run cmd 120 of
            Inl e \<Rightarrow> Inl e
          | Inr result \<Rightarrow> Inr (dfx_output result)))"

text \<open>Sequencing: the second part runs only when the first did not raise.\<close>

definition bind_io :: "'a io \<Rightarrow> ('a \<Rightarrow> 'b io) \<Rightarrow> 'b io" where
  "bind_io m f =
     (case m of
        (es, Inl e) \<Rightarrow> (es, Inl e)
      | (es, Inr a) \<Rightarrow> (case f a of (es', r) \<Rightarrow> (es @ es', r)))"

definition print_line :: "string \<Rightarrow> unit io" where
  "print_line s = ([Print s], Inr ())"

definition get_addresses :: "tool \<Rightarrow> string io" where
  "get_addresses run =
     bind_io (print_line ''Fetching addresses on all chains...\<newline>'') (\<lambda>_.
     bind_io (dfx_call run ''getAllAddresses'' ''()'' False) (\<lambda>output.
     bind_io (print_line ''Your multi-chain wallet addresses:\<newline>'') (\<lambda>_.
     bind_io (print_line output) (\<lambda>_.
     ([], Inr output)))))"

text \<open>
  The table of \<open>get_balance\<close>, in the order the dictionary is written: chain name,
  method, divisor (never used) and symbol.
\<close>

definition method_map :: "(string \<times> (string \<times> pyfloat \<times> string)) list" where
  "method_map =
     [(''sol'', (''getMySolanaBalance'', Finite (10 ^ 9), ''SOL'')),
      (''solana'', (''getMySolanaBalance'', Finite (10 ^ 9), ''SOL'')),
      (''icp'', (''getICPBalance'', Finite (10 ^ 8), ''ICP'')),
      (''xrp'', (''getMyXrpBalance'', Finite (10 ^ 6), ''XRP'')),
      (''sui'', (''getMySuiBalance'', Finite (10 ^ 9), ''SUI'')),
      (''eth'', (''getMyEvmBalance'', Finite (10 ^ 18), ''ETH'')),
      (''ethereum'', (''getMyEvmBalance'', Finite (10 ^ 18), ''ETH''))]"

text \<open>The chain names the specification lists for \<open>balance\<close>.\<close>

definition balance_chains :: "string set" where
  "balance_chains = {''sol'', ''solana'', ''icp'', ''xrp'', ''sui'', ''eth'', ''ethereum''}"

definition get_balance :: "tool \<Rightarrow> string \<Rightarrow> unit io" where
  "get_balance run chain0 =
     (let chain = lower chain0 in
      case map_of method_map chain of
        None \<Rightarrow>
          bind_io (print_line (''Unsupported chain: '' @ chain)) (\<lambda>_.
          print_line (''Supported: '' @ join '', '' (map fst method_map)))
      | Some (method, divisor, symbol) \<Rightarrow>
          bind_io (if chain \<in> {''eth'', ''ethereum''}
                   then dfx_call run method ''(\"ethereum\")'' False
                   else dfx_call run method ''()'' False) (\<lambda>output.
          print_line (symbol @ '' balance: '' @ output)))"

definition get_account :: "tool \<Rightarrow> unit io" where
  "get_account run =
     bind_io (dfx_call run ''getMyGatewayAccount'' ''()'' False) (\<lambda>output.
     bind_io (print_line ''Billing account status:\<newline>'') (\<lambda>_.
     print_line output))"

section \<open>Python floats\<close>

text \<open>
  \<open>float(s)\<close>, \<open>x * y\<close> on floats and \<open>int(x)\<close>, as CPython computes them on binary64:
  the conversion from a string and the product are each the exact value rounded to the
  nearest double, ties to even.
\<close>

definition pow_int :: "rat \<Rightarrow> int \<Rightarrow> rat" where
  "pow_int b k = (if 0 \<le> k then b ^ nat k else 1 / b ^ nat (- k))"

text \<open>Exponentiation by squaring: how \<open>pow_int\<close> is evaluated.\<close>

function fast_pow :: "rat \<Rightarrow> int \<Rightarrow> rat" where
  "fast_pow b k =
     (if k \<le> 0 then 1
      else if even k then fast_pow (b * b) (k div 2)
      else b * fast_pow (b * b) (k div 2))"
  by pat_completeness auto
termination
  by (relation "measure (\<lambda>(b, k). nat k)") auto

declare fast_pow.simps [simp del]

text \<open>The number of binary digits of a positive integer.\<close>

function bit_length :: "int \<Rightarrow> int" where
  "bit_length n = (if n \<le> 0 then 0 else 1 + bit_length (n div 2))"
  by pat_completeness auto
termination
  by (relation "measure nat") auto

declare bit_length.simps [simp del]

text \<open>The exponent \<open>e\<close> with \<open>2^e \<le> q < 2^(e+1)\<close>, for a positive \<open>q\<close>.\<close>

definition ilog2 :: "rat \<Rightarrow> int" where
  "ilog2 q =
     (let (p, d) = quotient_of q;
          k = bit_length p - bit_length d
      in if pow_int 2 k \<le> q then k else k - 1)"

definition round_half_even :: "rat \<Rightarrow> int" where
  "round_half_even q =
     (let f = \<lfloor>q\<rfloor>; d = q - of_int f
      in if d < 1 / 2 then f
         else if 1 / 2 < d then f + 1
         else if even f then f else f + 1)"

text \<open>
  Rounding to binary64: 53 significant bits, the least exponent of a normal number is
  \<open>-1022\<close> (below it the spacing stays \<open>2^-1074\<close>), and a result of magnitude \<open>2^1024\<close> or
  more is an infinity.
\<close>

definition round_double :: "rat \<Rightarrow> pyfloat" where
  "round_double q =
     (if q = 0 then Finite 0
      else let a = \<bar>q\<bar>;
               e = max (ilog2 a) (- 1022);
               quantum = pow_int 2 (e - 52);
               r = of_int (round_half_even (a / quantum)) * quantum
           in if pow_int 2 1024 \<le> r then (if 0 < q then PInf else NInf)
              else Finite (if 0 < q then r else - r))"

definition is_digit :: "char \<Rightarrow> bool" where
  "is_digit c = (48 \<le> code c \<and> code c \<le> 57)"

definition digits_val :: "string \<Rightarrow> int" where
  "digits_val ds = foldl (\<lambda>a c. 10 * a + (int (code c) - 48)) 0 ds"

text \<open>
  Underscores in a numeric string: each one stands after a digit and before a digit.
  \<open>prev\<close> is the character before, \<open>CHR 0x00\<close> at the start.
\<close>

fun underscores_ok :: "char \<Rightarrow> string \<Rightarrow> bool" where
  "underscores_ok prev [] = (prev \<noteq> CHR ''_'')"
| "underscores_ok prev (c # cs) =
     (if c = CHR ''_'' then is_digit prev \<and> underscores_ok c cs
      else if prev = CHR ''_'' then is_digit c \<and> underscores_ok c cs
      else underscores_ok c cs)"

text \<open>The whitespace that \<open>float\<close> strips at both ends.\<close>

definition float_space :: "char \<Rightarrow> bool" where
  "float_space c = (code c \<in> {9, 10, 11, 12, 13, 32, 133, 160})"

definition float_strip :: "string \<Rightarrow> string" where
  "float_strip s = rev (dropWhile float_space (rev (dropWhile float_space s)))"

text \<open>An optional sign: whether it is a minus, and the rest.\<close>

fun split_sign :: "string \<Rightarrow> bool \<times> string" where
  "split_sign [] = (False, [])"
| "split_sign (c # cs) =
     (if c = CHR ''-'' then (True, cs) else if c = CHR ''+'' then (False, cs) else (False, c # cs))"

text \<open>ASCII lowercase, as the match of \<open>inf\<close>, \<open>infinity\<close> and \<open>nan\<close> uses it.\<close>

definition ascii_lower :: "string \<Rightarrow> string" where
  "ascii_lower s = map (\<lambda>c. if 65 \<le> code c \<and> code c \<le> 90 then char_of (code c + 32) else c) s"

text \<open>
  The exponent part after the mantissa: nothing, or \<open>e\<close> or \<open>E\<close>, an optional sign and at
  least one digit. \<open>None\<close> when the text is anything else.
\<close>

definition parse_exponent :: "string \<Rightarrow> int option" where
  "parse_exponent s =
     (case s of
        [] \<Rightarrow> Some 0
      | c # cs \<Rightarrow>
          if c = CHR ''e'' \<or> c = CHR ''E'' then
            (case split_sign cs of
               (neg, ds) \<Rightarrow>
                 if ds \<noteq> [] \<and> list_all is_digit ds
                 then Some (if neg then - digits_val ds else digits_val ds)
                 else None)
          else None)"

text \<open>
  An unsigned decimal number: digits, an optional point and digits, with a digit on at
  least one side of the point, then the exponent part. Its value is exact.
\<close>

definition parse_decimal :: "string \<Rightarrow> rat option" where
  "parse_decimal s =
     (let ip = takeWhile is_digit s;
          r1 = dropWhile is_digit s;
          fp = (case r1 of [] \<Rightarrow> [] | c # cs \<Rightarrow> if c = CHR ''.'' then takeWhile is_digit cs else []);
          r2 = (case r1 of [] \<Rightarrow> [] | c # cs \<Rightarrow> if c = CHR ''.'' then dropWhile is_digit cs else r1)
      in if ip = [] \<and> fp = [] then None
         else (case parse_exponent r2 of
                 None \<Rightarrow> None
               | Some ex \<Rightarrow>
                   Some (of_int (digits_val (ip @ fp)) * pow_int 10 (ex - int (length fp)))))"

text \<open>
  \<open>float(s)\<close>: \<open>None\<close> is the \<open>ValueError\<close> of a string that is not a number. Strings of
  more than \<open>10^9\<close> digits, which no command line carries, are outside the model.
\<close>

definition py_float :: "string \<Rightarrow> pyfloat option" where
  "py_float s =
     (if \<not> underscores_ok (CHR 0x00) s then None
      else (case split_sign (float_strip (filter (\<lambda>c. c \<noteq> CHR ''_'') s)) of
              (neg, body) \<Rightarrow>
                (case parse_decimal body of
                   Some q \<Rightarrow> Some (round_double (if neg then - q else q))
                 | None \<Rightarrow>
                     if ascii_lower body = ''inf'' \<or> ascii_lower body = ''infinity''
                     then Some (if neg then NInf else PInf)
                     else if ascii_lower body = ''nan'' then Some NaN
                     else None)))"

text \<open>The product of two floats.\<close>

fun float_mul :: "pyfloat \<Rightarrow> pyfloat \<Rightarrow> pyfloat" where
  "float_mul (Finite a) (Finite b) = round_double (a * b)"
| "float_mul NaN y = NaN"
| "float_mul x NaN = NaN"
| "float_mul (Finite a) PInf = (if 0 < a then PInf else if a < 0 then NInf else NaN)"
| "float_mul (Finite a) NInf = (if 0 < a then NInf else if a < 0 then PInf else NaN)"
| "float_mul PInf (Finite b) = (if 0 < b then PInf else if b < 0 then NInf else NaN)"
| "float_mul NInf (Finite b) = (if 0 < b then NInf else if b < 0 then PInf else NaN)"
| "float_mul PInf PInf = PInf"
| "float_mul PInf NInf = NInf"
| "float_mul NInf PInf = NInf"
| "float_mul NInf NInf = PInf"

text \<open>
  \<open>int(x)\<close> truncates toward zero; an infinity raises \<open>OverflowError\<close> and not-a-number
  raises \<open>ValueError\<close>.
\<close>

definition truncate :: "rat \<Rightarrow> int" where
  "truncate q = (if 0 \<le> q then \<lfloor>q\<rfloor> else \<lceil>q\<rceil>)"

fun py_int :: "pyfloat \<Rightarrow> exn + int" where
  "py_int (Finite q) = Inr (truncate q)"
| "py_int PInf = Inl OverflowError"
| "py_int NInf = Inl OverflowError"
| "py_int NaN = Inl ValueError"

text \<open>\<open>str(n)\<close> of an integer, as an f-string writes it.\<close>

function show_digits :: "int \<Rightarrow> string" where
  "show_digits n =
     (if n < 10 then [char_of (48 + n)]
      else show_digits (n div 10) @ [char_of (48 + n mod 10)])"
  by pat_completeness auto
termination
  by (relation "measure nat") auto

declare show_digits.simps [simp del]

definition show_int :: "int \<Rightarrow> string" where
  "show_int i = (if i < 0 then ''-'' @ show_digits (- i) else show_digits i)"

section \<open>Sending and the entry point\<close>

text \<open>
  \<open>int(float(amount) * factor)\<close>, where \<open>factor\<close> is one of the literals \<open>1e6\<close>, \<open>1e8\<close>,
  \<open>1e9\<close>, \<open>1e18\<close>, each a double: \<open>float\<close> may raise \<open>ValueError\<close>, \<open>int\<close> may raise
  \<open>OverflowError\<close> or \<open>ValueError\<close>.
\<close>

definition to_units :: "string \<Rightarrow> rat \<Rightarrow> int io" where
  "to_units amount factor =
     (case py_float amount of
        None \<Rightarrow> ([], Inl ValueError)
      | Some x \<Rightarrow> ([], py_int (float_mul x (Finite factor))))"

text \<open>The last statement of \<open>send_tokens\<close>, which every supported branch reaches.\<close>

definition print_result :: "string io \<Rightarrow> unit io" where
  "print_result m = bind_io m (\<lambda>output. print_line (''\<newline>Result: '' @ output))"

definition send_tokens :: "tool \<Rightarrow> string \<Rightarrow> string \<Rightarrow> string \<Rightarrow> unit io" where
  "send_tokens run chain0 amount to_address =
     (let chain = lower chain0 in
      if chain \<in> {''sol'', ''solana''} then
        print_result
          (bind_io (to_units amount (10 ^ 9)) (\<lambda>lamports.
           bind_io (print_line (''Sending '' @ amount @ '' SOL ('' @ show_int lamports
                      @ '' lamports) to '' @ to_address @ ''...'')) (\<lambda>_.
           dfx_call run ''sendSolTransaction''
             (''(\"'' @ to_address @ ''\", '' @ show_int lamports @ '')'') False)))
      else if chain = ''icp'' then
        print_result
          (bind_io (to_units amount (10 ^ 8)) (\<lambda>e8s.
           bind_io (print_line (''Sending '' @ amount @ '' ICP ('' @ show_int e8s
                      @ '' e8s) to '' @ to_address @ ''...'')) (\<lambda>_.
           dfx_call run ''sendICP''
             (''(principal \"'' @ to_address @ ''\", '' @ show_int e8s @ '')'') False)))
      else if chain \<in> {''btc'', ''bitcoin''} then
        print_result
          (bind_io (to_units amount (10 ^ 8)) (\<lambda>satoshis.
           bind_io (print_line (''Sending '' @ amount @ '' BTC ('' @ show_int satoshis
                      @ '' satoshis) to '' @ to_address @ ''...'')) (\<lambda>_.
           dfx_call run ''sendBitcoin''
             (''(\"'' @ to_address @ ''\", '' @ show_int satoshis @ '')'') False)))
      else if chain \<in> {''eth'', ''ethereum''} then
        print_result
          (bind_io (to_units amount (10 ^ 18)) (\<lambda>wei.
           bind_io (print_line (''Sending '' @ amount @ '' ETH ('' @ show_int wei
                      @ '' wei) to '' @ to_address @ ''...'')) (\<lambda>_.
           dfx_call run ''sendEvmNativeTokenAutonomous''
             (''(\"ethereum\", \"'' @ to_address @ ''\", \"'' @ show_int wei @ ''\", null)'')
             False)))
      else if chain \<in> {''arb'', ''arbitrum''} then
        print_result
          (bind_io (to_units amount (10 ^ 18)) (\<lambda>wei.
           bind_io (print_line (''Sending '' @ amount @ '' ETH on Arbitrum to ''
                      @ to_address @ ''...'')) (\<lambda>_.
           dfx_call run ''sendEvmNativeTokenAutonomous''
             (''(\"arbitrum\", \"'' @ to_address @ ''\", \"'' @ show_int wei @ ''\", null)'')
             False)))
      else if chain = ''xrp'' then
        print_result
          (bind_io (to_units amount (10 ^ 6)) (\<lambda>drops.
           bind_io (print_line (''Sending '' @ amount @ '' XRP ('' @ show_int drops
                      @ '' drops) to '' @ to_address @ ''...'')) (\<lambda>_.
           dfx_call run ''sendXrpAutonomous''
             (''(\"'' @ to_address @ ''\", \"'' @ show_int drops @ ''\", null)'') False)))
      else if chain = ''sui'' then
        print_result
          (bind_io (to_units amount (10 ^ 9)) (\<lambda>mist.
           bind_io (print_line (''Sending '' @ amount @ '' SUI ('' @ show_int mist
                      @ '' mist) to '' @ to_address @ ''...'')) (\<lambda>_.
           dfx_call run ''sendSui''
             (''(\"'' @ to_address @ ''\", '' @ show_int mist @ '')'') False)))
      else if chain = ''ton'' then
        print_result
          (bind_io (to_units amount (10 ^ 9)) (\<lambda>nanotons.
           bind_io (print_line (''Sending '' @ amount @ '' TON ('' @ show_int nanotons
                      @ '' nanotons) to '' @ to_address @ ''...'')) (\<lambda>_.
           dfx_call run ''sendTonSimple''
             (''(\"'' @ to_address @ ''\", '' @ show_int nanotons @ '')'') False)))
      else
        bind_io (print_line (''Unsupported chain for send: '' @ chain)) (\<lambda>_.
        print_line ''Supported: sol, icp, btc, eth, arb, xrp, sui, ton''))"

text \<open>The chain names the specification lists for \<open>send\<close>.\<close>

definition send_chains :: "string set" where
  "send_chains = {''sol'', ''solana'', ''icp'', ''btc'', ''bitcoin'', ''eth'', ''ethereum'',
                  ''arb'', ''arbitrum'', ''xrp'', ''sui'', ''ton''}"

definition usage_text :: string where
  "usage_text =
     ''\<newline>MeneseSDK Wallet Commands\<newline>''
     @ ''========================\<newline>''
     @ ''\<newline>''
     @ ''  addresses                    Get addresses on all 15 chains (FREE)\<newline>''
     @ ''  balance <chain>              Check balance (FREE)\<newline>''
     @ ''  send <chain> <amount> <to>   Send tokens ($0.05)\<newline>''
     @ ''  account                      Check billing status (FREE)\<newline>''
     @ ''\<newline>''
     @ ''Chains: sol, icp, btc, eth, arb, xrp, sui, ton\<newline>''
     @ ''\<newline>''
     @ ''Examples:\<newline>''
     @ ''  python3 wallet_commands.py addresses\<newline>''
     @ ''  python3 wallet_commands.py balance sol\<newline>''
     @ ''  python3 wallet_commands.py send sol 0.01 5xK2...abc\<newline>''
     @ ''  python3 wallet_commands.py send icp 1.0 aaaaa-aa\<newline>''"

definition print_usage :: "unit io" where
  "print_usage = print_line usage_text"

text \<open>
  How the process ends: \<open>Exit n\<close> is \<open>sys.exit(n)\<close>, or the end of the script with
  \<open>n = 0\<close>; \<open>Uncaught e\<close> is an exception that nothing catches, so the interpreter
  prints a traceback and the process ends abnormally.
\<close>

datatype outcome = Exit nat | Uncaught exn

definition finish :: "'a io \<Rightarrow> event list \<times> outcome" where
  "finish m = (fst m, case snd m of Inl e \<Rightarrow> Uncaught e | Inr _ \<Rightarrow> Exit 0)"

text \<open>The block under \<open>__main__\<close>; \<open>argv\<close> is \<open>sys.argv\<close>, the script's name first.\<close>

definition main :: "tool \<Rightarrow> string list \<Rightarrow> event list \<times> outcome" where
  "main run argv =
     (if length argv < 2 then (fst print_usage, Exit 1)
      else
        let command = lower (argv ! 1) in
        if command = ''addresses'' then finish (get_addresses run)
        else if command = ''balance'' then
          (if length argv < 3 then ([Print ''Usage: wallet_commands.py balance <chain>''], Exit 1)
           else finish (get_balance run (argv ! 2)))
        else if command = ''send'' then
          (if length argv < 5
           then ([Print ''Usage: wallet_commands.py send <chain> <amount> <address>''], Exit 1)
           else finish (send_tokens run (argv ! 2) (argv ! 3) (argv ! 4)))
        else if command = ''account'' then finish (get_account run)
        else ([Print (''Unknown command: '' @ command), Print usage_text], Exit 1))"

section \<open>Tables for the statements\<close>

text \<open>The unit factors as the specification lists them, with the long chain names.\<close>

definition unit_factors :: "(string \<times> rat) list" where
  "unit_factors =
     [(''sol'', 10 ^ 9), (''solana'', 10 ^ 9), (''icp'', 10 ^ 8), (''btc'', 10 ^ 8),
      (''bitcoin'', 10 ^ 8), (''eth'', 10 ^ 18), (''ethereum'', 10 ^ 18), (''arb'', 10 ^ 18),
      (''arbitrum'', 10 ^ 18), (''xrp'', 10 ^ 6), (''sui'', 10 ^ 9), (''ton'', 10 ^ 9)]"

text \<open>
  The shape that the eight supported branches of \<open>send_tokens\<close> share: convert the
  amount, print a line that starts with \<open>Sending\<close> and the amount, call a method whose
  argument text holds the converted amount between a prefix and a suffix, print the
  result.
\<close>

definition send_branch ::
  "tool \<Rightarrow> string \<Rightarrow> rat \<Rightarrow> (int \<Rightarrow> string) \<Rightarrow> string \<Rightarrow> string \<Rightarrow> string \<Rightarrow> unit io" where
  "send_branch run amount factor tail meth pre post =
     print_result
       (bind_io (to_units amount factor) (\<lambda>n.
        bind_io (print_line (''Sending '' @ amount @ tail n)) (\<lambda>_.
        dfx_call run meth (pre @ show_int n @ post) False)))"

text \<open>
  The shape of a command that reaches the external tool: some printing, one run of the
  tool with the timeout 120, and then either the exception of the run, uncaught, or more
  printing that ends with the line holding the output of \<open>dfx_call\<close>, and exit status 0.
\<close>

definition single_call :: "tool \<Rightarrow> event list \<times> outcome \<Rightarrow> bool" where
  "single_call run p =
     (\<exists>before cmd after pre.
        invocations before = [] \<and> invocations after = [] \<and>
        p = (case run cmd 120 of
               Inl e \<Rightarrow> (before @ [Run cmd 120], Uncaught e)
             | Inr r \<Rightarrow> (before @ Run cmd 120 # after @ [Print (pre @ dfx_output r)], Exit 0)))"

section \<open>Sample tools\<close>

text \<open>Concrete behaviours of the external tool, for evaluating the script.\<close>

definition tool_returning :: "exn + completed \<Rightarrow> tool" where
  "tool_returning r cmd t = r"

definition sample_ok :: completed where
  "sample_ok = \<lparr>returncode = 0, stdout = ''(1_000 : nat64)\<newline>'', stderr = ''''\<rparr>"

definition sample_fail :: completed where
  "sample_fail = \<lparr>returncode = 1, stdout = '''', stderr = ''Error: rejected\<newline>''\<rparr>"

section \<open>Helper lemmas\<close>

subsection \<open>Rounding to the nearest double\<close>

text \<open>
  \<open>ilog2\<close> is the binary exponent, and \<open>round_double\<close> yields a multiple of the spacing
  at that exponent, at most half a spacing away; a value that is such a multiple, and
  within range, is kept.
\<close>

lemma fast_pow_power: "0 \<le> k \<Longrightarrow> fast_pow b k = b ^ nat k"
proof (induction b k rule: fast_pow.induct)
  case (1 b k)
  show ?case
  proof (cases "k = 0")
    case True
    then show ?thesis by (subst fast_pow.simps) simp
  next
    case False
    with "1.prems" have k: "0 < k" by simp
    then have h: "0 \<le> k div 2" by simp
    have sq: "(b * b) ^ nat (k div 2) = b ^ (2 * nat (k div 2))"
      by (simp add: power_mult power2_eq_square)
    show ?thesis
    proof (cases "even k")
      case True
      then have "2 * nat (k div 2) = nat k"
        using k by (auto elim!: evenE)
      with "1.IH"(1)[OF _ True h] k True sq show ?thesis
        by (subst fast_pow.simps) simp
    next
      case False
      then have "Suc (2 * nat (k div 2)) = nat k"
        using k by (auto elim!: oddE)
      then have "b ^ nat k = b * b ^ (2 * nat (k div 2))"
        by (metis power_Suc)
      with "1.IH"(2)[OF _ False h] k False sq show ?thesis
        by (subst fast_pow.simps) simp
    qed
  qed
qed

lemma pow_int_code [code]:
  "pow_int b k = (if 0 \<le> k then fast_pow b k else 1 / fast_pow b (- k))"
  by (simp add: pow_int_def fast_pow_power)

lemma pow_int_powi: "pow_int b k = b powi k"
  by (simp add: pow_int_def power_int_def power_inverse divide_inverse)

lemma bit_length_bounds:
  "0 < n \<Longrightarrow> 0 < bit_length n \<and> 2 ^ nat (bit_length n - 1) \<le> n \<and> n < 2 ^ nat (bit_length n)"
proof (induction n rule: bit_length.induct)
  case (1 n)
  show ?case
  proof (cases "n = 1")
    case True
    have "bit_length 1 = 1"
      by (simp add: bit_length.simps)
    with True show ?thesis by simp
  next
    case False
    with "1.prems" have m: "0 < n div 2" by simp
    with "1.IH" "1.prems" have ih: "0 < bit_length (n div 2)"
      "2 ^ nat (bit_length (n div 2) - 1) \<le> n div 2" "n div 2 < 2 ^ nat (bit_length (n div 2))"
      by simp_all
    have b: "bit_length n = 1 + bit_length (n div 2)"
      using "1.prems" by (subst bit_length.simps) simp
    have e: "nat (bit_length (n div 2)) = Suc (nat (bit_length (n div 2) - 1))"
      using ih(1) by simp
    have "2 ^ nat (bit_length (n div 2)) \<le> n"
    proof -
      have "(2::int) ^ nat (bit_length (n div 2)) = 2 * 2 ^ nat (bit_length (n div 2) - 1)"
        by (subst e) simp
      also have "\<dots> \<le> 2 * (n div 2)" using ih(2) by simp
      also have "\<dots> \<le> n" by simp
      finally show ?thesis .
    qed
    moreover have "n < 2 ^ nat (1 + bit_length (n div 2))"
    proof -
      have "n div 2 + 1 \<le> 2 ^ nat (bit_length (n div 2))" using ih(3) by simp
      then have "2 * (n div 2) + 2 \<le> 2 * 2 ^ nat (bit_length (n div 2))" by simp
      moreover have "n < 2 * (n div 2) + 2" by presburger
      moreover have "nat (1 + bit_length (n div 2)) = Suc (nat (bit_length (n div 2)))"
        using ih(1) by simp
      ultimately show ?thesis by simp
    qed
    ultimately show ?thesis
      using ih(1) unfolding b by simp
  qed
qed

lemma pow2_nat: "0 \<le> a \<Longrightarrow> (2::rat) ^ nat a = pow_int 2 a"
  by (simp add: pow_int_def)

lemma pow_int_pos: "0 < pow_int 2 k"
  by (simp add: pow_int_def)

lemma pow_int_diff: "pow_int 2 (a - b) = pow_int 2 a / pow_int 2 b"
  by (simp add: pow_int_powi power_int_diff)

lemma pow_int_Suc: "pow_int 2 (k + 1) = 2 * pow_int 2 k"
  by (simp add: pow_int_powi power_int_add)

lemma ilog2_bounds:
  assumes "0 < q"
  shows "pow_int 2 (ilog2 q) \<le> q \<and> q < pow_int 2 (ilog2 q + 1)"
proof -
  obtain p d where pd: "quotient_of q = (p, d)"
    by (cases "quotient_of q")
  then have d: "0 < d" and q: "q = of_int p / of_int d"
    by (auto dest: quotient_of_denom_pos quotient_of_div)
  with assms have p: "0 < p"
    by (simp add: zero_less_divide_iff)
  define a where "a = bit_length p"
  define b where "b = bit_length d"
  from bit_length_bounds[OF p] have a: "0 < a" "2 ^ nat (a - 1) \<le> p" "p < 2 ^ nat a"
    by (simp_all add: a_def)
  from bit_length_bounds[OF d] have b: "0 < b" "2 ^ nat (b - 1) \<le> d" "d < 2 ^ nat b"
    by (simp_all add: b_def)
  have pl: "pow_int 2 (a - 1) \<le> of_int p"
  proof -
    have "(of_int (2 ^ nat (a - 1)) :: rat) \<le> of_int p"
      using a(2) by (simp only: of_int_le_iff)
    then show ?thesis using a(1) by (simp add: pow2_nat[symmetric])
  qed
  have pu: "of_int p < pow_int 2 a"
  proof -
    have "(of_int p :: rat) < of_int (2 ^ nat a)"
      using a(3) by (simp only: of_int_less_iff)
    then show ?thesis using a(1) by (simp add: pow2_nat[symmetric])
  qed
  have dl: "pow_int 2 (b - 1) \<le> of_int d"
  proof -
    have "(of_int (2 ^ nat (b - 1)) :: rat) \<le> of_int d"
      using b(2) by (simp only: of_int_le_iff)
    then show ?thesis using b(1) by (simp add: pow2_nat[symmetric])
  qed
  have du: "of_int d < pow_int 2 b"
  proof -
    have "(of_int d :: rat) < of_int (2 ^ nat b)"
      using b(3) by (simp only: of_int_less_iff)
    then show ?thesis using b(1) by (simp add: pow2_nat[symmetric])
  qed
  have dpos: "(0::rat) < of_int d" using d by simp
  have upper: "q < pow_int 2 (a - b + 1)"
  proof -
    have "q < pow_int 2 a / of_int d"
      unfolding q using pu dpos by (simp add: divide_strict_right_mono)
    also have "\<dots> \<le> pow_int 2 a / pow_int 2 (b - 1)"
      using dl pow_int_pos[of "b - 1"] pow_int_pos[of a]
      by (simp add: frac_le)
    also have "\<dots> = pow_int 2 (a - (b - 1))"
      by (simp add: pow_int_diff)
    finally show ?thesis by (simp add: algebra_simps)
  qed
  have lower: "pow_int 2 (a - b - 1) \<le> q"
  proof -
    have "pow_int 2 (a - b - 1) = pow_int 2 (a - 1) / pow_int 2 b"
      using pow_int_diff[of "a - 1" b] by (simp add: algebra_simps)
    also have "\<dots> \<le> of_int p / pow_int 2 b"
      using pl pow_int_pos[of b] by (simp add: divide_right_mono)
    also have "\<dots> \<le> of_int p / of_int d"
      using du dpos p by (simp add: frac_le)
    finally show ?thesis by (simp add: q)
  qed
  have il: "ilog2 q = (if pow_int 2 (a - b) \<le> q then a - b else a - b - 1)"
    by (simp add: ilog2_def pd a_def b_def)
  show ?thesis
  proof (cases "pow_int 2 (a - b) \<le> q")
    case True
    with upper il show ?thesis by simp
  next
    case False
    with lower il show ?thesis by simp
  qed
qed

lemma round_half_even_nearest: "\<bar>of_int (round_half_even x) - x\<bar> \<le> 1 / 2"
proof -
  have "of_int \<lfloor>x\<rfloor> \<le> x" "x < of_int \<lfloor>x\<rfloor> + 1"
    by linarith+
  then show ?thesis
    by (auto simp: round_half_even_def Let_def abs_le_iff)
qed

lemma round_half_even_of_int: "round_half_even (of_int n) = n"
  by (simp add: round_half_even_def)

lemma round_double_nearest:
  assumes "q \<noteq> 0" "round_double q = Finite r"
  defines "quantum \<equiv> pow_int 2 (max (ilog2 \<bar>q\<bar>) (- 1022) - 52)"
  shows "\<exists>n. r = of_int n * quantum \<and> \<bar>r - q\<bar> \<le> quantum / 2"
proof -
  define n where "n = round_half_even (\<bar>q\<bar> / quantum)"
  have qp: "0 < quantum"
    by (simp add: quantum_def pow_int_pos)
  have "\<bar>of_int n - \<bar>q\<bar> / quantum\<bar> \<le> 1 / 2"
    unfolding n_def by (rule round_half_even_nearest)
  then have "\<bar>of_int n - \<bar>q\<bar> / quantum\<bar> * quantum \<le> 1 / 2 * quantum"
    using qp by (simp only: mult_le_cancel_right_pos)
  moreover have "\<bar>of_int n - \<bar>q\<bar> / quantum\<bar> * quantum = \<bar>of_int n * quantum - \<bar>q\<bar>\<bar>"
  proof -
    have "of_int n * quantum - \<bar>q\<bar> = (of_int n - \<bar>q\<bar> / quantum) * quantum"
      using qp by (simp add: left_diff_distrib)
    then show ?thesis
      using qp by (simp add: abs_mult)
  qed
  ultimately have err: "\<bar>of_int n * quantum - \<bar>q\<bar>\<bar> \<le> quantum / 2"
    by simp
  from assms(2) have r: "r = (if 0 < q then of_int n * quantum else - (of_int n * quantum))"
    using assms(1)
    by (simp add: round_double_def Let_def n_def quantum_def split: if_splits)
  show ?thesis
  proof (cases "0 < q")
    case True
    with r err show ?thesis by (intro exI[of _ n]) simp
  next
    case False
    with assms(1) have "q < 0" by simp
    with r err show ?thesis by (intro exI[of _ "- n"]) (simp add: abs_if split: if_splits)
  qed
qed

lemma round_double_exact:
  assumes "q \<noteq> 0" "\<bar>q\<bar> < pow_int 2 1024"
    and "q = of_int m * pow_int 2 (max (ilog2 \<bar>q\<bar>) (- 1022) - 52)"
  shows "round_double q = Finite q"
proof -
  define quantum where "quantum = pow_int 2 (max (ilog2 \<bar>q\<bar>) (- 1022) - 52)"
  have qp: "0 < quantum"
    by (simp add: quantum_def pow_int_pos)
  have q: "q = of_int m * quantum"
    using assms(3) by (simp add: quantum_def)
  have "\<bar>q\<bar> / quantum = of_int \<bar>m\<bar>"
    using qp by (simp add: q abs_mult)
  then have "round_half_even (\<bar>q\<bar> / quantum) = \<bar>m\<bar>"
    by (simp only: round_half_even_of_int)
  then have e: "of_int (round_half_even (\<bar>q\<bar> / quantum)) * quantum = \<bar>q\<bar>"
    using qp by (simp add: q abs_mult)
  have "round_double q =
      (if pow_int 2 1024 \<le> of_int (round_half_even (\<bar>q\<bar> / quantum)) * quantum
       then (if 0 < q then PInf else NInf)
       else Finite (if 0 < q then of_int (round_half_even (\<bar>q\<bar> / quantum)) * quantum
                    else - (of_int (round_half_even (\<bar>q\<bar> / quantum)) * quantum)))"
    using assms(1) by (simp add: round_double_def Let_def quantum_def)
  also have "\<dots> = Finite (if 0 < q then \<bar>q\<bar> else - \<bar>q\<bar>)"
    unfolding e using assms(2) by simp
  also have "(if 0 < q then \<bar>q\<bar> else - \<bar>q\<bar>) = q"
    by simp
  finally show ?thesis .
qed

subsection \<open>The script's functions\<close>

lemma fst_bind_io:
  "fst (bind_io m f) = (case snd m of Inl e \<Rightarrow> fst m | Inr a \<Rightarrow> fst m @ fst (f a))"
  by (cases m) (auto simp: bind_io_def split: sum.splits prod.splits)

lemma snd_bind_io:
  "snd (bind_io m f) = (case snd m of Inl e \<Rightarrow> Inl e | Inr a \<Rightarrow> snd (f a))"
  by (cases m) (auto simp: bind_io_def split: sum.splits prod.splits)

lemma fst_dfx_call: "fst (dfx_call run m a q) = [Run (dfx_cmd m a q) 120]"
  by (simp add: dfx_call_def Let_def)

lemma snd_dfx_call:
  "snd (dfx_call run m a q) =
     (case run (dfx_cmd m a q) 120 of Inl e \<Rightarrow> Inl e | Inr r \<Rightarrow> Inr (dfx_output r))"
  by (simp add: dfx_call_def Let_def)

lemma fst_print_line: "fst (print_line s) = [Print s]"
  by (simp add: print_line_def)

lemma snd_print_line: "snd (print_line s) = Inr ()"
  by (simp add: print_line_def)

lemmas io_simps =
  fst_bind_io snd_bind_io fst_dfx_call snd_dfx_call fst_print_line snd_print_line

lemma invocations_simps:
  "invocations [] = []"
  "invocations (Run cmd t # es) = cmd # invocations es"
  "invocations (Print s # es) = invocations es"
  "invocations (es @ es') = invocations es @ invocations es'"
  by (simp_all add: invocations_def)

lemma printed_simps:
  "printed [] = []"
  "printed (Run cmd t # es) = printed es"
  "printed (Print s # es) = s # printed es"
  "printed (es @ es') = printed es @ printed es'"
  by (simp_all add: printed_def)

lemma timeouts_simps:
  "timeouts [] = []"
  "timeouts (Run cmd t # es) = t # timeouts es"
  "timeouts (Print s # es) = timeouts es"
  "timeouts (es @ es') = timeouts es @ timeouts es'"
  by (simp_all add: timeouts_def)

lemma dfx_cmd_call:
  "dfx_cmd m a False =
     [''dfx'', ''canister'', ''call'', ''--network'', ''ic'', ''urs2a-ziaaa-aaaad-aembq-cai'', m, a]"
  by (simp add: dfx_cmd_def NETWORK_def CANISTER_ID_def)

lemma balance_chains_keys: "balance_chains = fst ` set method_map"
  by (simp add: balance_chains_def method_map_def)

lemma get_balance_supported:
  assumes "map_of method_map (lower chain) = Some (method, divisor, symbol)"
  shows "get_balance run chain =
     bind_io (dfx_call run method
                (if lower chain \<in> {''eth'', ''ethereum''} then ''(\"ethereum\")'' else ''()'') False)
       (\<lambda>output. print_line (symbol @ '' balance: '' @ output))"
  using assms by (simp add: get_balance_def Let_def)

lemma method_map_cases:
  assumes "lower chain \<in> balance_chains"
  obtains meth dv sym where
    "map_of method_map (lower chain) = Some (meth, dv, sym)"
    "meth \<in> {''getMySolanaBalance'', ''getICPBalance'', ''getMyXrpBalance'',
                ''getMySuiBalance'', ''getMyEvmBalance''}"
  using assms by (auto simp: method_map_def balance_chains_def)

lemma get_balance_sol:
  "get_balance run ''sol'' =
     bind_io (dfx_call run ''getMySolanaBalance'' ''()'' False)
       (\<lambda>output. print_line (''SOL balance: '' @ output))"
  by (simp add: get_balance_def Let_def lower_def lower_char_def code_def method_map_def)

lemma lower_SOL: "lower ''SOL'' = ''sol''"
  by code_simp

lemma dfx_output_sample_ok: "dfx_output sample_ok = ''(1_000 : nat64)''"
  by (simp add: dfx_output_def sample_ok_def strip_def isspace_def code_def)

lemma dfx_output_sample_fail: "dfx_output sample_fail = ''ERROR: Error: rejected''"
  by (simp add: dfx_output_def sample_fail_def strip_def isspace_def code_def)

lemma send_tokens_sol:
  assumes "lower chain = ''sol'' \<or> lower chain = ''solana''"
  shows "send_tokens run chain amount addr =
     send_branch run amount (10 ^ 9)
       (\<lambda>n. '' SOL ('' @ show_int n @ '' lamports) to '' @ addr @ ''...'')
       ''sendSolTransaction'' (''(\"'' @ addr @ ''\", '') '')''"
  using assms by (auto simp: send_tokens_def send_branch_def Let_def)

lemma send_tokens_icp:
  assumes "lower chain = ''icp''"
  shows "send_tokens run chain amount addr =
     send_branch run amount (10 ^ 8)
       (\<lambda>n. '' ICP ('' @ show_int n @ '' e8s) to '' @ addr @ ''...'')
       ''sendICP'' (''(principal \"'' @ addr @ ''\", '') '')''"
  using assms by (auto simp: send_tokens_def send_branch_def Let_def)

lemma send_tokens_btc:
  assumes "lower chain = ''btc'' \<or> lower chain = ''bitcoin''"
  shows "send_tokens run chain amount addr =
     send_branch run amount (10 ^ 8)
       (\<lambda>n. '' BTC ('' @ show_int n @ '' satoshis) to '' @ addr @ ''...'')
       ''sendBitcoin'' (''(\"'' @ addr @ ''\", '') '')''"
  using assms by (auto simp: send_tokens_def send_branch_def Let_def)

lemma send_tokens_eth:
  assumes "lower chain = ''eth'' \<or> lower chain = ''ethereum''"
  shows "send_tokens run chain amount addr =
     send_branch run amount (10 ^ 18)
       (\<lambda>n. '' ETH ('' @ show_int n @ '' wei) to '' @ addr @ ''...'')
       ''sendEvmNativeTokenAutonomous'' (''(\"ethereum\", \"'' @ addr @ ''\", \"'') ''\", null)''"
  using assms by (auto simp: send_tokens_def send_branch_def Let_def)

lemma send_tokens_arb:
  assumes "lower chain = ''arb'' \<or> lower chain = ''arbitrum''"
  shows "send_tokens run chain amount addr =
     send_branch run amount (10 ^ 18)
       (\<lambda>n. '' ETH on Arbitrum to '' @ addr @ ''...'')
       ''sendEvmNativeTokenAutonomous'' (''(\"arbitrum\", \"'' @ addr @ ''\", \"'') ''\", null)''"
  using assms by (auto simp: send_tokens_def send_branch_def Let_def)

lemma send_tokens_xrp:
  assumes "lower chain = ''xrp''"
  shows "send_tokens run chain amount addr =
     send_branch run amount (10 ^ 6)
       (\<lambda>n. '' XRP ('' @ show_int n @ '' drops) to '' @ addr @ ''...'')
       ''sendXrpAutonomous'' (''(\"'' @ addr @ ''\", \"'') ''\", null)''"
  using assms by (auto simp: send_tokens_def send_branch_def Let_def)

lemma send_tokens_sui:
  assumes "lower chain = ''sui''"
  shows "send_tokens run chain amount addr =
     send_branch run amount (10 ^ 9)
       (\<lambda>n. '' SUI ('' @ show_int n @ '' mist) to '' @ addr @ ''...'')
       ''sendSui'' (''(\"'' @ addr @ ''\", '') '')''"
  using assms by (auto simp: send_tokens_def send_branch_def Let_def)

lemma send_tokens_ton:
  assumes "lower chain = ''ton''"
  shows "send_tokens run chain amount addr =
     send_branch run amount (10 ^ 9)
       (\<lambda>n. '' TON ('' @ show_int n @ '' nanotons) to '' @ addr @ ''...'')
       ''sendTonSimple'' (''(\"'' @ addr @ ''\", '') '')''"
  using assms by (auto simp: send_tokens_def send_branch_def Let_def)

lemma send_tokens_unsupported:
  assumes "lower chain \<notin> send_chains"
  shows "send_tokens run chain amount addr =
     ([Print (''Unsupported chain for send: '' @ lower chain),
       Print ''Supported: sol, icp, btc, eth, arb, xrp, sui, ton''], Inr ())"
  using assms by (simp add: send_tokens_def send_chains_def Let_def bind_io_def print_line_def)

lemma send_tokens_template:
  assumes "lower chain \<in> send_chains"
  shows "\<exists>factor tail meth pre post.
           map_of unit_factors (lower chain) = Some factor
           \<and> (\<forall>amount. send_tokens run chain amount addr =
                 send_branch run amount factor tail meth pre post)"
proof -
  from assms consider
      "lower chain = ''sol'' \<or> lower chain = ''solana''" | "lower chain = ''icp''"
    | "lower chain = ''btc'' \<or> lower chain = ''bitcoin''"
    | "lower chain = ''eth'' \<or> lower chain = ''ethereum''"
    | "lower chain = ''arb'' \<or> lower chain = ''arbitrum''" | "lower chain = ''xrp''"
    | "lower chain = ''sui''" | "lower chain = ''ton''"
    by (auto simp: send_chains_def)
  then show ?thesis
  proof cases
    case 1
    have f: "map_of unit_factors (lower chain) = Some (10 ^ 9)"
      using 1 by (auto simp: unit_factors_def)
    show ?thesis
      by (intro exI conjI allI) (rule f, rule send_tokens_sol[OF 1])
  next
    case 2
    have f: "map_of unit_factors (lower chain) = Some (10 ^ 8)"
      using 2 by (auto simp: unit_factors_def)
    show ?thesis
      by (intro exI conjI allI) (rule f, rule send_tokens_icp[OF 2])
  next
    case 3
    have f: "map_of unit_factors (lower chain) = Some (10 ^ 8)"
      using 3 by (auto simp: unit_factors_def)
    show ?thesis
      by (intro exI conjI allI) (rule f, rule send_tokens_btc[OF 3])
  next
    case 4
    have f: "map_of unit_factors (lower chain) = Some (10 ^ 18)"
      using 4 by (auto simp: unit_factors_def)
    show ?thesis
      by (intro exI conjI allI) (rule f, rule send_tokens_eth[OF 4])
  next
    case 5
    have f: "map_of unit_factors (lower chain) = Some (10 ^ 18)"
      using 5 by (auto simp: unit_factors_def)
    show ?thesis
      by (intro exI conjI allI) (rule f, rule send_tokens_arb[OF 5])
  next
    case 6
    have f: "map_of unit_factors (lower chain) = Some (10 ^ 6)"
      using 6 by (auto simp: unit_factors_def)
    show ?thesis
      by (intro exI conjI allI) (rule f, rule send_tokens_xrp[OF 6])
  next
    case 7
    have f: "map_of unit_factors (lower chain) = Some (10 ^ 9)"
      using 7 by (auto simp: unit_factors_def)
    show ?thesis
      by (intro exI conjI allI) (rule f, rule send_tokens_sui[OF 7])
  next
    case 8
    have f: "map_of unit_factors (lower chain) = Some (10 ^ 9)"
      using 8 by (auto simp: unit_factors_def)
    show ?thesis
      by (intro exI conjI allI) (rule f, rule send_tokens_ton[OF 8])
  qed
qed

lemma send_tokens_cases:
  assumes "lower chain \<in> send_chains"
  shows "\<exists>factor tail meth pre post.
           map_of unit_factors (lower chain) = Some factor
           \<and> send_tokens run chain amount addr = send_branch run amount factor tail meth pre post"
  using send_tokens_template[OF assms, of run addr] by blast

lemma fst_to_units: "fst (to_units amount factor) = []"
  by (simp add: to_units_def split: option.splits)

lemma send_branch_raise:
  assumes "snd (to_units amount factor) = Inl e"
  shows "send_branch run amount factor tail meth pre post = ([], Inl e)"
  using assms fst_to_units[of amount factor]
  by (cases "to_units amount factor") (simp add: send_branch_def print_result_def bind_io_def)

lemma send_branch_units:
  assumes "snd (to_units amount factor) = Inr n"
  shows "send_branch run amount factor tail meth pre post =
     ([Print (''Sending '' @ amount @ tail n),
       Run (dfx_cmd meth (pre @ show_int n @ post) False) 120]
      @ (case run (dfx_cmd meth (pre @ show_int n @ post) False) 120 of
           Inl e \<Rightarrow> []
         | Inr r \<Rightarrow> [Print (''\<newline>Result: '' @ dfx_output r)]),
      case run (dfx_cmd meth (pre @ show_int n @ post) False) 120 of
        Inl e \<Rightarrow> Inl e
      | Inr r \<Rightarrow> Inr ())"
  using assms fst_to_units[of amount factor]
  by (cases "to_units amount factor")
     (simp add: send_branch_def print_result_def bind_io_def print_line_def dfx_call_def Let_def
        split: sum.splits)

lemma py_float_001: "py_float ''0.01'' = Some (Finite (5764607523034235 / 576460752303423488))"
  by code_simp

lemma mul_001: "float_mul (Finite (5764607523034235 / 576460752303423488)) (Finite (10 ^ 9)) = Finite 10000000"
  by code_simp

lemma to_units_001: "to_units ''0.01'' (10 ^ 9) = ([], Inr 10000000)"
  by code_simp

lemma to_units_15: "to_units ''1.5'' (10 ^ 8) = ([], Inr 150000000)"
  by code_simp

lemma to_units_inf: "to_units ''inf'' (10 ^ 9) = ([], Inl OverflowError)"
  by code_simp

lemma py_float_inf: "py_float ''inf'' = Some PInf"
  by code_simp

lemma py_float_abc: "py_float ''abc'' = None"
  by code_simp

lemma show_int_1: "show_int 10000000 = ''10000000''"
  by code_simp

lemma show_int_2: "show_int 150000000 = ''150000000''"
  by code_simp

lemma lower_char_idem: "lower_char (lower_char c) = lower_char c"
  by (simp add: lower_char_def code_def)

lemma lower_idem: "lower (lower s) = lower s"
  by (simp add: lower_def lower_char_idem)

lemma get_balance_unsupported:
  assumes "lower chain \<notin> balance_chains"
  shows "get_balance run chain =
     ([Print (''Unsupported chain: '' @ lower chain),
       Print ''Supported: sol, solana, icp, xrp, sui, eth, ethereum''], Inr ())"
proof -
  have "map_of method_map (lower chain) = None"
    using assms by (simp add: balance_chains_keys map_of_eq_None_iff)
  moreover have "join '', '' (map fst method_map) = ''sol, solana, icp, xrp, sui, eth, ethereum''"
    by (simp add: method_map_def)
  ultimately show ?thesis
    by (simp add: get_balance_def Let_def bind_io_def print_line_def)
qed

lemma lower_doge: "lower ''Doge'' = ''doge''"
  by code_simp

lemma lower_sol: "lower ''sol'' = ''sol''"
  by code_simp

lemma lower_icp: "lower ''icp'' = ''icp''"
  by code_simp

lemma lower_send: "lower ''send'' = ''send''"
  by code_simp

lemma lower_balance: "lower ''balance'' = ''balance''"
  by code_simp

lemma to_units_Finite:
  assumes "py_float amount = Some x" "float_mul x (Finite factor) = Finite r"
  shows "to_units amount factor = ([], Inr (truncate r))"
  using assms by (simp add: to_units_def)

lemma to_units_not_finite:
  assumes "py_float amount = Some x" "float_mul x (Finite factor) \<in> {PInf, NInf, NaN}"
  shows "to_units amount factor =
     ([], Inl (if float_mul x (Finite factor) = NaN then ValueError else OverflowError))"
proof (cases "float_mul x (Finite factor)")
  case (Finite r)
  with assms(2) show ?thesis by simp
next
  case PInf
  with assms(1) show ?thesis by (simp add: to_units_def)
next
  case NInf
  with assms(1) show ?thesis by (simp add: to_units_def)
next
  case NaN
  with assms(1) show ?thesis by (simp add: to_units_def)
qed

lemma py_float_nan: "py_float ''nan'' = Some NaN"
  by code_simp

lemma to_units_None:
  assumes "py_float amount = None"
  shows "to_units amount factor = ([], Inl ValueError)"
  using assms by (simp add: to_units_def)

lemma invocations_send_branch:
  assumes "snd (to_units amount factor) = Inr n"
  shows "invocations (fst (send_branch run amount factor tail meth pre post)) =
           [dfx_cmd meth (pre @ show_int n @ post) False]"
  by (simp add: send_branch_units[OF assms] invocations_simps split: sum.splits)

lemma single_callI:
  assumes "invocations before = []" "invocations after = []"
    and "p = (case run cmd 120 of
               Inl e \<Rightarrow> (before @ [Run cmd 120], Uncaught e)
             | Inr r \<Rightarrow> (before @ Run cmd 120 # after @ [Print (pre @ dfx_output r)], Exit 0))"
  shows "single_call run p"
  unfolding single_call_def using assms by blast

lemma get_addresses_single: "single_call run (finish (get_addresses run))"
  by (rule single_callI[where before = "[Print ''Fetching addresses on all chains...\<newline>'']"
        and cmd = "dfx_cmd ''getAllAddresses'' ''()'' False"
        and after = "[Print ''Your multi-chain wallet addresses:\<newline>'']" and pre = "[]"])
     (simp_all add: invocations_simps finish_def get_addresses_def io_simps split: sum.splits)

lemma get_account_single: "single_call run (finish (get_account run))"
  by (rule single_callI[where before = "[]"
        and cmd = "dfx_cmd ''getMyGatewayAccount'' ''()'' False"
        and after = "[Print ''Billing account status:\<newline>'']" and pre = "[]"])
     (simp_all add: invocations_simps finish_def get_account_def io_simps split: sum.splits)

lemma get_balance_single:
  assumes "lower chain \<in> balance_chains"
  shows "single_call run (finish (get_balance run chain))"
proof -
  from assms obtain meth dv sym where
    m: "map_of method_map (lower chain) = Some (meth, dv, sym)"
    by (rule method_map_cases)
  show ?thesis
    by (rule single_callI[where before = "[]"
          and cmd = "dfx_cmd meth
            (if lower chain \<in> {''eth'', ''ethereum''} then ''(\"ethereum\")'' else ''()'') False"
          and after = "[]" and pre = "sym @ '' balance: ''"])
       (simp_all add: invocations_simps finish_def get_balance_supported[OF m] io_simps
          split: sum.splits)
qed

lemma send_branch_single:
  assumes "snd (to_units amount factor) = Inr n"
  shows "single_call run (finish (send_branch run amount factor tail meth pre post))"
  by (rule single_callI[where before = "[Print (''Sending '' @ amount @ tail n)]"
        and cmd = "dfx_cmd meth (pre @ show_int n @ post) False"
        and after = "[]" and pre = "''\<newline>Result: ''"])
     (simp_all add: invocations_simps finish_def send_branch_units[OF assms] split: sum.splits)

lemma send_tokens_single:
  "invocations (fst (send_tokens run chain amount addr)) = []
   \<or> single_call run (finish (send_tokens run chain amount addr))"
proof (cases "lower chain \<in> send_chains")
  case False
  then show ?thesis
    by (simp add: send_tokens_unsupported invocations_simps)
next
  case True
  then obtain factor tail meth pre post where
    s: "send_tokens run chain amount addr = send_branch run amount factor tail meth pre post"
    using send_tokens_cases by blast
  show ?thesis
  proof (cases "snd (to_units amount factor)")
    case (Inl e)
    then show ?thesis
      by (simp add: s send_branch_raise invocations_simps)
  next
    case (Inr n)
    then show ?thesis
      unfolding s by (simp add: send_branch_single)
  qed
qed

lemma finish_fst: "fst (finish m) = fst m"
  by (simp add: finish_def)

lemma main_single:
  "invocations (fst (main run argv)) = [] \<or> single_call run (main run argv)"
proof -
  have b: "invocations (fst (get_balance run c)) = [] \<or> single_call run (finish (get_balance run c))"
    for c
    by (cases "lower c \<in> balance_chains")
       (simp_all add: get_balance_single get_balance_unsupported invocations_simps)
  show ?thesis
    using b send_tokens_single get_addresses_single get_account_single
    by (simp add: main_def Let_def finish_fst invocations_simps print_usage_def print_line_def)
qed

lemma single_call_invocations:
  assumes "single_call run p" "invocations (fst p) = [cmd]"
  shows "(\<forall>e. run cmd 120 = Inl e \<longrightarrow> snd p = Uncaught e \<and> last (fst p) = Run cmd 120)
       \<and> (\<forall>r. run cmd 120 = Inr r \<longrightarrow>
             snd p = Exit 0 \<and> (\<exists>pre. last (fst p) = Print (pre @ dfx_output r)))"
proof -
  from assms(1) obtain before c after pre where
    b: "invocations before = []" and a: "invocations after = []"
    and p: "p = (case run c 120 of
               Inl e \<Rightarrow> (before @ [Run c 120], Uncaught e)
             | Inr r \<Rightarrow> (before @ Run c 120 # after @ [Print (pre @ dfx_output r)], Exit 0))"
    unfolding single_call_def by blast
  have "invocations (fst p) = [c]"
    using a b by (simp add: p invocations_simps split: sum.splits)
  with assms(2) have "c = cmd" by simp
  with p show ?thesis
    by (auto split: sum.splits)
qed

lemma no_invocations_no_timeouts:
  assumes "invocations es = []"
  shows "timeouts es = []"
  using assms by (induction es) (auto simp: timeouts_def invocations_def split: event.splits)

lemma single_call_timeouts:
  assumes "single_call run p"
  shows "timeouts (fst p) = [120]"
proof -
  note t = no_invocations_no_timeouts
  from assms obtain before c after pre where
    b: "invocations before = []" and a: "invocations after = []"
    and p: "p = (case run c 120 of
               Inl e \<Rightarrow> (before @ [Run c 120], Uncaught e)
             | Inr r \<Rightarrow> (before @ Run c 120 # after @ [Print (pre @ dfx_output r)], Exit 0))"
    unfolding single_call_def by blast
  show ?thesis
    using t[OF a] t[OF b] by (simp add: p timeouts_simps split: sum.splits)
qed

lemma to_units_zero: "to_units ''0'' factor = ([], Inr 0)"
proof -
  have "py_float ''0'' = Some (Finite 0)"
    by code_simp
  then show ?thesis
    by (simp add: to_units_def round_double_def truncate_def)
qed

lemma send_tokens_supported_events:
  assumes "lower chain \<in> send_chains"
  shows "Print (''Unsupported chain for send: '' @ lower chain)
           \<notin> set (fst (send_tokens run chain amount addr))"
proof -
  from assms obtain factor tail meth pre post where
    s: "send_tokens run chain amount addr = send_branch run amount factor tail meth pre post"
    using send_tokens_cases by blast
  show ?thesis
  proof (cases "snd (to_units amount factor)")
    case (Inl e)
    then show ?thesis
      by (simp add: s send_branch_raise)
  next
    case (Inr n)
    then show ?thesis
      by (simp add: s send_branch_units split: sum.splits)
  qed
qed

lemma get_balance_supported_events:
  assumes "lower chain \<in> balance_chains"
  shows "Print (''Unsupported chain: '' @ lower chain) \<notin> set (fst (get_balance run chain))"
proof -
  from assms obtain meth dv sym where
    m: "map_of method_map (lower chain) = Some (meth, dv, sym)"
    by (rule method_map_cases)
  then have "sym \<in> {''SOL'', ''ICP'', ''XRP'', ''SUI'', ''ETH''}"
    by (auto simp: method_map_def split: if_splits)
  then show ?thesis
    by (auto simp: get_balance_supported[OF m] io_simps split: sum.splits)
qed

text \<open>
  The literals \<open>1e6\<close>, \<open>1e8\<close>, \<open>1e9\<close> and \<open>1e18\<close> of the script are read as the powers of
  ten themselves, which is why \<open>to_units\<close> takes the factor as a rational number. The
  product is a rounded one: \<open>0.29\<close> BTC are \<open>28999999\<close> satoshis.
\<close>

lemma literal_1e6: "py_float ''1e6'' = Some (Finite (10 ^ 6))"
  by code_simp

lemma literal_1e8: "py_float ''1e8'' = Some (Finite (10 ^ 8))"
  by code_simp

lemma literal_1e9: "py_float ''1e9'' = Some (Finite (10 ^ 9))"
  by code_simp

lemma literal_1e18: "py_float ''1e18'' = Some (Finite (10 ^ 18))"
  by code_simp

lemma to_units_029: "to_units ''0.29'' (10 ^ 8) = ([], Inr 28999999)"
  by code_simp

section \<open>Balance\<close>

text \<open>
  C1, amended. For every chain name whose lowercase form is one of the seven balance
  chains, \<open>get_balance\<close> runs the external tool exactly once, with the command list
  \<open>dfx canister call --network ic <canister> <method> <args>\<close>: \<open>is_query\<close> keeps its
  default \<open>False\<close>, so the flag \<open>--query\<close> is not on the command line. In particular
  \<open>balance sol\<close> runs method \<open>getMySolanaBalance\<close> with arguments \<open>()\<close> and, when the
  tool completes, prints \<open>SOL balance: \<close> followed by the output of \<open>dfx_call\<close>.
\<close>

theorem get_balance_call_mode:
  "(lower chain \<in> balance_chains \<longrightarrow>
      (\<exists>method args. invocations (fst (get_balance run chain)) = [dfx_cmd method args False]
         \<and> \<not> query_mode (dfx_cmd method args False)))
   \<and> invocations (fst (get_balance run ''sol'')) =
       [[''dfx'', ''canister'', ''call'', ''--network'', ''ic'', ''urs2a-ziaaa-aaaad-aembq-cai'',
         ''getMySolanaBalance'', ''()'']]
   \<and> (run [''dfx'', ''canister'', ''call'', ''--network'', ''ic'', ''urs2a-ziaaa-aaaad-aembq-cai'',
             ''getMySolanaBalance'', ''()''] 120 = Inr result \<longrightarrow>
        printed (fst (get_balance run ''sol'')) = [''SOL balance: '' @ dfx_output result])"
proof (intro conjI impI)
  assume "lower chain \<in> balance_chains"
  then obtain meth dv sym where
    m: "map_of method_map (lower chain) = Some (meth, dv, sym)"
    and mm: "meth \<in> {''getMySolanaBalance'', ''getICPBalance'', ''getMyXrpBalance'',
                ''getMySuiBalance'', ''getMyEvmBalance''}"
    by (rule method_map_cases)
  let ?args = "if lower chain \<in> {''eth'', ''ethereum''} then ''(\"ethereum\")'' else ''()''"
  have "invocations (fst (get_balance run chain)) = [dfx_cmd meth ?args False]"
    by (simp add: get_balance_supported[OF m] io_simps invocations_simps split: sum.splits)
  moreover have "\<not> query_mode (dfx_cmd meth ?args False)"
    using mm by (auto simp: query_mode_def dfx_cmd_call)
  ultimately show "\<exists>method args.
      invocations (fst (get_balance run chain)) = [dfx_cmd method args False]
      \<and> \<not> query_mode (dfx_cmd method args False)"
    by blast
next
  show "invocations (fst (get_balance run ''sol'')) =
       [[''dfx'', ''canister'', ''call'', ''--network'', ''ic'', ''urs2a-ziaaa-aaaad-aembq-cai'',
         ''getMySolanaBalance'', ''()'']]"
    by (simp add: get_balance_sol io_simps invocations_simps dfx_cmd_call split: sum.splits)
next
  assume "run [''dfx'', ''canister'', ''call'', ''--network'', ''ic'', ''urs2a-ziaaa-aaaad-aembq-cai'',
             ''getMySolanaBalance'', ''()''] 120 = Inr result"
  then show "printed (fst (get_balance run ''sol'')) = [''SOL balance: '' @ dfx_output result]"
    by (simp add: get_balance_sol io_simps printed_simps dfx_cmd_call)
qed

text \<open>The theorem at \<open>balance SOL\<close>, with a tool that answers \<open>(1_000 : nat64)\<close>.\<close>

theorem get_balance_call_mode_witness:
  "lower ''SOL'' \<in> balance_chains
   \<and> (\<exists>method args.
         invocations (fst (get_balance (tool_returning (Inr sample_ok)) ''SOL'')) =
           [dfx_cmd method args False]
         \<and> \<not> query_mode (dfx_cmd method args False))
   \<and> tool_returning (Inr sample_ok)
        [''dfx'', ''canister'', ''call'', ''--network'', ''ic'', ''urs2a-ziaaa-aaaad-aembq-cai'',
         ''getMySolanaBalance'', ''()''] 120 = Inr sample_ok
   \<and> printed (fst (get_balance (tool_returning (Inr sample_ok)) ''sol'')) =
       [''SOL balance: (1_000 : nat64)'']"
  using get_balance_call_mode [of "''SOL''" "tool_returning (Inr sample_ok)" sample_ok]
  by (simp add: lower_SOL balance_chains_def tool_returning_def dfx_output_sample_ok)

text \<open>
  C1 as stated fails: the one command that \<open>balance sol\<close> runs does not carry \<open>--query\<close>.
\<close>

theorem get_balance_query_counterexample:
  "invocations (fst (get_balance (tool_returning (Inr sample_ok)) ''sol'')) =
     [[''dfx'', ''canister'', ''call'', ''--network'', ''ic'', ''urs2a-ziaaa-aaaad-aembq-cai'',
       ''getMySolanaBalance'', ''()'']]
   \<and> \<not> query_mode [''dfx'', ''canister'', ''call'', ''--network'', ''ic'',
                     ''urs2a-ziaaa-aaaad-aembq-cai'', ''getMySolanaBalance'', ''()'']"
  by (simp add: get_balance_sol io_simps invocations_simps dfx_cmd_call query_mode_def
        split: sum.splits)

section \<open>Addresses and account\<close>

text \<open>
  C2, amended. \<open>get_addresses\<close> runs the external tool once, with method
  \<open>getAllAddresses\<close> and arguments \<open>()\<close>, and \<open>get_account\<close> runs it once with method
  \<open>getMyGatewayAccount\<close> and arguments \<open>()\<close>; both in call mode, since \<open>is_query\<close> keeps its
  default \<open>False\<close> and \<open>--query\<close> is not on the command line. When the tool completes,
  each prints the text that \<open>dfx_call\<close> returned, unchanged, after its heading.
\<close>

theorem addresses_account_call_mode:
  "invocations (fst (get_addresses run)) =
     [[''dfx'', ''canister'', ''call'', ''--network'', ''ic'', ''urs2a-ziaaa-aaaad-aembq-cai'',
       ''getAllAddresses'', ''()'']]
   \<and> \<not> query_mode [''dfx'', ''canister'', ''call'', ''--network'', ''ic'',
                     ''urs2a-ziaaa-aaaad-aembq-cai'', ''getAllAddresses'', ''()'']
   \<and> (run [''dfx'', ''canister'', ''call'', ''--network'', ''ic'', ''urs2a-ziaaa-aaaad-aembq-cai'',
             ''getAllAddresses'', ''()''] 120 = Inr result \<longrightarrow>
        printed (fst (get_addresses run)) =
          [''Fetching addresses on all chains...\<newline>'',
           ''Your multi-chain wallet addresses:\<newline>'', dfx_output result])
   \<and> invocations (fst (get_account run)) =
     [[''dfx'', ''canister'', ''call'', ''--network'', ''ic'', ''urs2a-ziaaa-aaaad-aembq-cai'',
       ''getMyGatewayAccount'', ''()'']]
   \<and> \<not> query_mode [''dfx'', ''canister'', ''call'', ''--network'', ''ic'',
                     ''urs2a-ziaaa-aaaad-aembq-cai'', ''getMyGatewayAccount'', ''()'']
   \<and> (run [''dfx'', ''canister'', ''call'', ''--network'', ''ic'', ''urs2a-ziaaa-aaaad-aembq-cai'',
             ''getMyGatewayAccount'', ''()''] 120 = Inr result' \<longrightarrow>
        printed (fst (get_account run)) = [''Billing account status:\<newline>'', dfx_output result'])"
proof (intro conjI impI)
  show "invocations (fst (get_addresses run)) =
     [[''dfx'', ''canister'', ''call'', ''--network'', ''ic'', ''urs2a-ziaaa-aaaad-aembq-cai'',
       ''getAllAddresses'', ''()'']]"
    by (simp add: get_addresses_def io_simps invocations_simps dfx_cmd_call split: sum.splits)
  show "invocations (fst (get_account run)) =
     [[''dfx'', ''canister'', ''call'', ''--network'', ''ic'', ''urs2a-ziaaa-aaaad-aembq-cai'',
       ''getMyGatewayAccount'', ''()'']]"
    by (simp add: get_account_def io_simps invocations_simps dfx_cmd_call split: sum.splits)
  show "\<not> query_mode [''dfx'', ''canister'', ''call'', ''--network'', ''ic'',
                     ''urs2a-ziaaa-aaaad-aembq-cai'', ''getAllAddresses'', ''()'']"
    by (simp add: query_mode_def)
  show "\<not> query_mode [''dfx'', ''canister'', ''call'', ''--network'', ''ic'',
                     ''urs2a-ziaaa-aaaad-aembq-cai'', ''getMyGatewayAccount'', ''()'']"
    by (simp add: query_mode_def)
next
  assume "run [''dfx'', ''canister'', ''call'', ''--network'', ''ic'', ''urs2a-ziaaa-aaaad-aembq-cai'',
             ''getAllAddresses'', ''()''] 120 = Inr result"
  then show "printed (fst (get_addresses run)) =
          [''Fetching addresses on all chains...\<newline>'',
           ''Your multi-chain wallet addresses:\<newline>'', dfx_output result]"
    by (simp add: get_addresses_def io_simps printed_simps dfx_cmd_call)
next
  assume "run [''dfx'', ''canister'', ''call'', ''--network'', ''ic'', ''urs2a-ziaaa-aaaad-aembq-cai'',
             ''getMyGatewayAccount'', ''()''] 120 = Inr result'"
  then show "printed (fst (get_account run)) =
       [''Billing account status:\<newline>'', dfx_output result']"
    by (simp add: get_account_def io_simps printed_simps dfx_cmd_call)
qed

text \<open>The theorem with a tool that answers \<open>(1_000 : nat64)\<close> to every command.\<close>

theorem addresses_account_call_mode_witness:
  "tool_returning (Inr sample_ok)
     [''dfx'', ''canister'', ''call'', ''--network'', ''ic'', ''urs2a-ziaaa-aaaad-aembq-cai'',
      ''getAllAddresses'', ''()''] 120 = Inr sample_ok
   \<and> printed (fst (get_addresses (tool_returning (Inr sample_ok)))) =
       [''Fetching addresses on all chains...\<newline>'',
        ''Your multi-chain wallet addresses:\<newline>'', ''(1_000 : nat64)'']
   \<and> tool_returning (Inr sample_ok)
     [''dfx'', ''canister'', ''call'', ''--network'', ''ic'', ''urs2a-ziaaa-aaaad-aembq-cai'',
      ''getMyGatewayAccount'', ''()''] 120 = Inr sample_ok
   \<and> printed (fst (get_account (tool_returning (Inr sample_ok)))) =
       [''Billing account status:\<newline>'', ''(1_000 : nat64)'']"
  using addresses_account_call_mode [of "tool_returning (Inr sample_ok)" sample_ok sample_ok]
  by (simp add: tool_returning_def dfx_output_sample_ok)

text \<open>
  C2 as stated fails: the one command that \<open>addresses\<close> runs does not carry \<open>--query\<close>.
\<close>

theorem get_addresses_query_counterexample:
  "invocations (fst (get_addresses (tool_returning (Inr sample_ok)))) =
     [[''dfx'', ''canister'', ''call'', ''--network'', ''ic'', ''urs2a-ziaaa-aaaad-aembq-cai'',
       ''getAllAddresses'', ''()'']]
   \<and> \<not> query_mode [''dfx'', ''canister'', ''call'', ''--network'', ''ic'',
                     ''urs2a-ziaaa-aaaad-aembq-cai'', ''getAllAddresses'', ''()'']"
  by (simp add: get_addresses_def io_simps invocations_simps dfx_cmd_call query_mode_def
        split: sum.splits)

section \<open>Unsupported chains\<close>

text \<open>
  C4. For a chain name whose lowercase form is not a supported one, \<open>get_balance\<close> and
  \<open>send_tokens\<close> print the unsupported-chain line and the line listing supported chains,
  return normally, and run no subprocess.
\<close>

theorem unsupported_chain_no_call:
  "(lower chain \<notin> balance_chains \<longrightarrow>
      get_balance run chain =
        ([Print (''Unsupported chain: '' @ lower chain),
          Print ''Supported: sol, solana, icp, xrp, sui, eth, ethereum''], Inr ())
      \<and> invocations (fst (get_balance run chain)) = [])
   \<and> (lower chain \<notin> send_chains \<longrightarrow>
      send_tokens run chain amount addr =
        ([Print (''Unsupported chain for send: '' @ lower chain),
          Print ''Supported: sol, icp, btc, eth, arb, xrp, sui, ton''], Inr ())
      \<and> invocations (fst (send_tokens run chain amount addr)) = [])"
  by (simp add: get_balance_unsupported send_tokens_unsupported invocations_simps)

text \<open>The theorem at the chain name \<open>Doge\<close>.\<close>

theorem unsupported_chain_no_call_witness:
  "lower ''Doge'' \<notin> balance_chains \<and> lower ''Doge'' \<notin> send_chains
   \<and> get_balance (tool_returning (Inr sample_ok)) ''Doge'' =
        ([Print ''Unsupported chain: doge'',
          Print ''Supported: sol, solana, icp, xrp, sui, eth, ethereum''], Inr ())
   \<and> send_tokens (tool_returning (Inr sample_ok)) ''Doge'' ''1'' ''D8x'' =
        ([Print ''Unsupported chain for send: doge'',
          Print ''Supported: sol, icp, btc, eth, arb, xrp, sui, ton''], Inr ())"
  using unsupported_chain_no_call [of "''Doge''" "tool_returning (Inr sample_ok)" "''1''" "''D8x''"]
  by (simp add: lower_doge balance_chains_def send_chains_def)

section \<open>Chain names are case-insensitive\<close>

text \<open>
  C9. \<open>get_balance\<close> and \<open>send_tokens\<close> behave on a chain name as on its lowercase form:
  same trace and same result.
\<close>

theorem chain_case_insensitive:
  "get_balance run chain = get_balance run (lower chain)
   \<and> send_tokens run chain amount addr = send_tokens run (lower chain) amount addr"
  by (simp add: get_balance_def send_tokens_def lower_idem)

section \<open>Unit conversion\<close>

text \<open>
  C3, amended. For a supported chain with unit factor \<open>factor\<close> there are a method and
  an argument template (a prefix and a suffix, fixed by the chain and the address) such
  that, for every amount string that \<open>float\<close> converts to some \<open>x\<close> whose float product
  with the factor is a finite number \<open>r\<close>, \<open>send_tokens\<close> runs the external tool once, with
  that method and with \<open>r\<close> truncated to an integer between the prefix and the suffix.
  When instead that product is not finite (an infinity or not-a-number), \<open>int\<close> raises,
  \<open>OverflowError\<close> for an infinity and \<open>ValueError\<close> for not-a-number, with an empty trace:
  nothing is printed, no argument text is built and the external tool is not run.
  Amount \<open>0.01\<close> on \<open>sol\<close> gives \<open>10000000\<close>, and \<open>send icp 1.5 aaaaa-aa\<close> calls \<open>sendICP\<close>
  with \<open>(principal "aaaaa-aa", 150000000)\<close>.
\<close>

theorem send_tokens_units:
  "(lower chain \<in> send_chains \<and> map_of unit_factors (lower chain) = Some factor \<longrightarrow>
      (\<exists>meth pre post. \<forall>amount x r.
          py_float amount = Some x \<and> float_mul x (Finite factor) = Finite r \<longrightarrow>
          invocations (fst (send_tokens run chain amount addr)) =
            [dfx_cmd meth (pre @ show_int (truncate r) @ post) False]))
   \<and> (lower chain \<in> send_chains \<and> map_of unit_factors (lower chain) = Some factor
        \<and> py_float amount' = Some y \<and> float_mul y (Finite factor) \<in> {PInf, NInf, NaN} \<longrightarrow>
        send_tokens run chain amount' addr =
          ([], Inl (if float_mul y (Finite factor) = NaN then ValueError else OverflowError)))
   \<and> invocations (fst (send_tokens run ''sol'' ''0.01'' addr)) =
       [[''dfx'', ''canister'', ''call'', ''--network'', ''ic'', ''urs2a-ziaaa-aaaad-aembq-cai'',
         ''sendSolTransaction'', ''(\"'' @ addr @ ''\", 10000000)'']]
   \<and> invocations (fst (send_tokens run ''icp'' ''1.5'' ''aaaaa-aa'')) =
       [[''dfx'', ''canister'', ''call'', ''--network'', ''ic'', ''urs2a-ziaaa-aaaad-aembq-cai'',
         ''sendICP'', ''(principal \"aaaaa-aa\", 150000000)'']]"
proof (intro conjI impI)
  assume a: "lower chain \<in> send_chains \<and> map_of unit_factors (lower chain) = Some factor"
  then obtain factor' tail meth pre post where
    f: "map_of unit_factors (lower chain) = Some factor'"
    and s: "\<And>amount. send_tokens run chain amount addr =
              send_branch run amount factor' tail meth pre post"
    using send_tokens_template[of chain run addr] by blast
  from a f have ff: "factor' = factor" by simp
  have "invocations (fst (send_tokens run chain amount addr)) =
      [dfx_cmd meth (pre @ show_int (truncate r) @ post) False]"
    if "py_float amount = Some x \<and> float_mul x (Finite factor) = Finite r" for amount x r
  proof -
    from that ff have "snd (to_units amount factor') = Inr (truncate r)"
      by (simp add: to_units_Finite)
    then show ?thesis
      unfolding s by (rule invocations_send_branch)
  qed
  then show "\<exists>meth pre post. \<forall>amount x r.
      py_float amount = Some x \<and> float_mul x (Finite factor) = Finite r \<longrightarrow>
      invocations (fst (send_tokens run chain amount addr)) =
        [dfx_cmd meth (pre @ show_int (truncate r) @ post) False]"
    by blast
next
  assume a: "lower chain \<in> send_chains \<and> map_of unit_factors (lower chain) = Some factor
        \<and> py_float amount' = Some y \<and> float_mul y (Finite factor) \<in> {PInf, NInf, NaN}"
  then obtain factor' tail meth pre post where
    f: "map_of unit_factors (lower chain) = Some factor'"
    and s: "\<And>amount. send_tokens run chain amount addr =
              send_branch run amount factor' tail meth pre post"
    using send_tokens_template[of chain run addr] by blast
  from a f have ff: "factor' = factor" by simp
  from a have "snd (to_units amount' factor) =
      Inl (if float_mul y (Finite factor) = NaN then ValueError else OverflowError)"
    by (simp add: to_units_not_finite)
  then show "send_tokens run chain amount' addr =
      ([], Inl (if float_mul y (Finite factor) = NaN then ValueError else OverflowError))"
    unfolding s ff by (rule send_branch_raise)
next
  have "snd (to_units ''0.01'' (10 ^ 9)) = Inr 10000000"
    using to_units_001 by simp
  then show "invocations (fst (send_tokens run ''sol'' ''0.01'' addr)) =
       [[''dfx'', ''canister'', ''call'', ''--network'', ''ic'', ''urs2a-ziaaa-aaaad-aembq-cai'',
         ''sendSolTransaction'', ''(\"'' @ addr @ ''\", 10000000)'']]"
    by (simp add: send_tokens_sol lower_sol invocations_send_branch show_int_1 dfx_cmd_call)
next
  have "snd (to_units ''1.5'' (10 ^ 8)) = Inr 150000000"
    using to_units_15 by simp
  then show "invocations (fst (send_tokens run ''icp'' ''1.5'' ''aaaaa-aa'')) =
       [[''dfx'', ''canister'', ''call'', ''--network'', ''ic'', ''urs2a-ziaaa-aaaad-aembq-cai'',
         ''sendICP'', ''(principal \"aaaaa-aa\", 150000000)'']]"
    by (simp add: send_tokens_icp lower_icp invocations_send_branch show_int_2 dfx_cmd_call)
qed

text \<open>
  The theorem at \<open>send SOL 0.01\<close>, the double nearest to \<open>0.01\<close> times \<open>1e9\<close>, and at
  \<open>send SOL nan\<close>, which \<open>float\<close> converts to not-a-number.
\<close>

theorem send_tokens_units_witness:
  "lower ''SOL'' \<in> send_chains \<and> map_of unit_factors (lower ''SOL'') = Some (10 ^ 9)
   \<and> py_float ''0.01'' = Some (Finite (5764607523034235 / 576460752303423488))
   \<and> float_mul (Finite (5764607523034235 / 576460752303423488)) (Finite (10 ^ 9)) =
       Finite 10000000
   \<and> (\<exists>meth pre post.
          invocations (fst (send_tokens (tool_returning (Inr sample_ok)) ''SOL'' ''0.01'' ''5xK2'')) =
            [dfx_cmd meth (pre @ show_int (truncate 10000000) @ post) False])
   \<and> py_float ''nan'' = Some NaN
   \<and> float_mul NaN (Finite (10 ^ 9)) \<in> {PInf, NInf, NaN}
   \<and> send_tokens (tool_returning (Inr sample_ok)) ''SOL'' ''nan'' ''5xK2'' = ([], Inl ValueError)"
proof -
  have h1: "lower ''SOL'' \<in> send_chains"
    by (simp add: lower_SOL send_chains_def)
  have h2: "map_of unit_factors (lower ''SOL'') = Some (10 ^ 9)"
    by (simp add: lower_SOL unit_factors_def)
  have h4: "float_mul NaN (Finite (10 ^ 9)) \<in> {PInf, NInf, NaN}"
    by simp
  note t = send_tokens_units [of "''SOL''" "10 ^ 9" "tool_returning (Inr sample_ok)" "''5xK2''"
      "''nan''" NaN]
  have w1: "\<exists>meth pre post.
          invocations (fst (send_tokens (tool_returning (Inr sample_ok)) ''SOL'' ''0.01'' ''5xK2'')) =
            [dfx_cmd meth (pre @ show_int (truncate 10000000) @ post) False]"
    using t h1 h2 py_float_001 mul_001
    by blast
  have "send_tokens (tool_returning (Inr sample_ok)) ''SOL'' ''nan'' ''5xK2'' =
       ([], Inl (if float_mul NaN (Finite (10 ^ 9)) = NaN then ValueError else OverflowError))"
    using t h1 h2 h4 py_float_nan
    by blast
  then have w2: "send_tokens (tool_returning (Inr sample_ok)) ''SOL'' ''nan'' ''5xK2'' =
       ([], Inl ValueError)"
    by simp
  from h1 h2 py_float_001 mul_001 w1 py_float_nan h4 w2 show ?thesis
    by blast
qed

text \<open>
  C3 as stated fails: \<open>float\<close> converts the amount \<open>inf\<close>, but \<open>int\<close> then raises
  \<open>OverflowError\<close>, before anything is printed or run.
\<close>

theorem send_tokens_inf_counterexample:
  "py_float ''inf'' = Some PInf
   \<and> send_tokens (tool_returning (Inr sample_ok)) ''sol'' ''inf'' ''5xK2'' = ([], Inl OverflowError)"
proof -
  have "snd (to_units ''inf'' (10 ^ 9)) = Inl OverflowError"
    using to_units_inf by simp
  then show ?thesis
    by (simp add: py_float_inf send_tokens_sol lower_sol send_branch_raise)
qed

section \<open>An amount that is not a number\<close>

text \<open>
  C10. For a supported send chain and an amount string that \<open>float\<close> rejects,
  \<open>send_tokens\<close> raises \<open>ValueError\<close> with an empty trace: nothing is printed, no argument
  text is built and the external tool is not run. Nothing catches the exception, so the
  \<open>send\<close> command ends abnormally.
\<close>

theorem send_unparseable_amount:
  "lower chain \<in> send_chains \<and> py_float amount = None \<and> lower cmd = ''send'' \<longrightarrow>
     send_tokens run chain amount addr = ([], Inl ValueError)
     \<and> main run (prog # cmd # chain # amount # addr # rest) = ([], Uncaught ValueError)"
proof
  assume a: "lower chain \<in> send_chains \<and> py_float amount = None \<and> lower cmd = ''send''"
  then obtain factor tail meth pre post where
    s: "send_tokens run chain amount addr = send_branch run amount factor tail meth pre post"
    using send_tokens_cases by blast
  from a have "snd (to_units amount factor) = Inl ValueError"
    by (simp add: to_units_None)
  then have r: "send_tokens run chain amount addr = ([], Inl ValueError)"
    unfolding s by (rule send_branch_raise)
  from a have "main run (prog # cmd # chain # amount # addr # rest) =
      finish (send_tokens run chain amount addr)"
    by (simp add: main_def Let_def)
  with r show "send_tokens run chain amount addr = ([], Inl ValueError)
     \<and> main run (prog # cmd # chain # amount # addr # rest) = ([], Uncaught ValueError)"
    by (simp add: finish_def)
qed

text \<open>The theorem at \<open>send sol abc 5xK2\<close>.\<close>

theorem send_unparseable_amount_witness:
  "lower ''sol'' \<in> send_chains \<and> py_float ''abc'' = None \<and> lower ''send'' = ''send''
   \<and> send_tokens (tool_returning (Inr sample_ok)) ''sol'' ''abc'' ''5xK2'' = ([], Inl ValueError)
   \<and> main (tool_returning (Inr sample_ok)) [''wallet_commands.py'', ''send'', ''sol'', ''abc'', ''5xK2'']
       = ([], Uncaught ValueError)"
  using send_unparseable_amount [of "''sol''" "''abc''" "''send''" "tool_returning (Inr sample_ok)"
      "''5xK2''" "''wallet_commands.py''" "[]"]
  by (simp add: lower_sol lower_send py_float_abc send_chains_def)

section \<open>Missing arguments\<close>

text \<open>
  C6. With no argument at all the script prints the full usage text and exits with
  status 1; \<open>balance\<close> without a chain and \<open>send\<close> with fewer than three arguments print
  their usage line and exit with status 1. The external tool is not run.
\<close>

theorem missing_arguments_usage:
  "(length argv < 2 \<longrightarrow> main run argv = ([Print usage_text], Exit 1))
   \<and> (length argv = 2 \<and> lower (argv ! 1) = ''balance'' \<longrightarrow>
        main run argv = ([Print ''Usage: wallet_commands.py balance <chain>''], Exit 1))
   \<and> (2 \<le> length argv \<and> length argv < 5 \<and> lower (argv ! 1) = ''send'' \<longrightarrow>
        main run argv =
          ([Print ''Usage: wallet_commands.py send <chain> <amount> <address>''], Exit 1))"
  by (simp add: main_def Let_def print_usage_def print_line_def)

text \<open>The theorem with no argument, at \<open>balance\<close> alone and at \<open>send sol 1\<close>.\<close>

theorem missing_arguments_usage_witness:
  "length [''wallet_commands.py''] < 2
   \<and> main (tool_returning (Inr sample_ok)) [''wallet_commands.py''] = ([Print usage_text], Exit 1)
   \<and> length [''wallet_commands.py'', ''balance''] = 2
   \<and> lower ([''wallet_commands.py'', ''balance''] ! 1) = ''balance''
   \<and> main (tool_returning (Inr sample_ok)) [''wallet_commands.py'', ''balance''] =
        ([Print ''Usage: wallet_commands.py balance <chain>''], Exit 1)
   \<and> length [''wallet_commands.py'', ''send'', ''sol'', ''1''] < 5
   \<and> lower ([''wallet_commands.py'', ''send'', ''sol'', ''1''] ! 1) = ''send''
   \<and> main (tool_returning (Inr sample_ok)) [''wallet_commands.py'', ''send'', ''sol'', ''1''] =
        ([Print ''Usage: wallet_commands.py send <chain> <amount> <address>''], Exit 1)"
  using missing_arguments_usage [of "[''wallet_commands.py'']" "tool_returning (Inr sample_ok)"]
    missing_arguments_usage [of "[''wallet_commands.py'', ''balance'']"
      "tool_returning (Inr sample_ok)"]
    missing_arguments_usage [of "[''wallet_commands.py'', ''send'', ''sol'', ''1'']"
      "tool_returning (Inr sample_ok)"]
  by (simp add: lower_send lower_balance)

section \<open>The supported chains\<close>

text \<open>
  C7. \<open>get_balance\<close> runs the external tool exactly for the chain names whose lowercase
  form is one of \<open>sol\<close>, \<open>solana\<close>, \<open>icp\<close>, \<open>xrp\<close>, \<open>sui\<close>, \<open>eth\<close>, \<open>ethereum\<close>, and prints the
  unsupported-chain line exactly for the others. \<open>send_tokens\<close> can run the external
  tool (there is an amount for which it does) exactly for the chain names whose lowercase
  form is one of \<open>sol\<close>, \<open>solana\<close>, \<open>icp\<close>, \<open>btc\<close>, \<open>bitcoin\<close>, \<open>eth\<close>, \<open>ethereum\<close>, \<open>arb\<close>,
  \<open>arbitrum\<close>, \<open>xrp\<close>, \<open>sui\<close>, \<open>ton\<close>, and prints its unsupported-chain line exactly for
  the others.
\<close>

theorem supported_chain_sets:
  "(invocations (fst (get_balance run chain)) \<noteq> [] \<longleftrightarrow> lower chain \<in> balance_chains)
   \<and> (Print (''Unsupported chain: '' @ lower chain) \<in> set (fst (get_balance run chain))
        \<longleftrightarrow> lower chain \<notin> balance_chains)
   \<and> ((\<exists>amount. invocations (fst (send_tokens run chain amount addr)) \<noteq> [])
        \<longleftrightarrow> lower chain \<in> send_chains)
   \<and> (Print (''Unsupported chain for send: '' @ lower chain)
          \<in> set (fst (send_tokens run chain amount' addr))
        \<longleftrightarrow> lower chain \<notin> send_chains)"
proof (intro conjI)
  show "invocations (fst (get_balance run chain)) \<noteq> [] \<longleftrightarrow> lower chain \<in> balance_chains"
  proof (cases "lower chain \<in> balance_chains")
    case True
    then obtain meth dv sym where
      m: "map_of method_map (lower chain) = Some (meth, dv, sym)"
      by (rule method_map_cases)
    have "invocations (fst (get_balance run chain)) \<noteq> []"
      by (simp add: get_balance_supported[OF m] io_simps invocations_simps split: sum.splits)
    with True show ?thesis by simp
  next
    case False
    then show ?thesis
      by (simp add: get_balance_unsupported invocations_simps)
  qed
next
  show "Print (''Unsupported chain: '' @ lower chain) \<in> set (fst (get_balance run chain))
        \<longleftrightarrow> lower chain \<notin> balance_chains"
  proof (cases "lower chain \<in> balance_chains")
    case True
    with get_balance_supported_events[OF True] show ?thesis by simp
  next
    case False
    then show ?thesis
      by (simp add: get_balance_unsupported)
  qed
next
  show "(\<exists>amount. invocations (fst (send_tokens run chain amount addr)) \<noteq> [])
        \<longleftrightarrow> lower chain \<in> send_chains"
  proof (cases "lower chain \<in> send_chains")
    case True
    then obtain factor tail meth pre post where
      s: "send_tokens run chain ''0'' addr = send_branch run ''0'' factor tail meth pre post"
      using send_tokens_cases by blast
    have "snd (to_units ''0'' factor) = Inr 0"
      by (simp add: to_units_zero)
    then have "invocations (fst (send_tokens run chain ''0'' addr)) \<noteq> []"
      unfolding s by (simp add: invocations_send_branch)
    with True show ?thesis by blast
  next
    case False
    then show ?thesis
      by (simp add: send_tokens_unsupported invocations_simps)
  qed
next
  show "Print (''Unsupported chain for send: '' @ lower chain)
          \<in> set (fst (send_tokens run chain amount' addr))
        \<longleftrightarrow> lower chain \<notin> send_chains"
  proof (cases "lower chain \<in> send_chains")
    case True
    with send_tokens_supported_events[OF True] show ?thesis by simp
  next
    case False
    then show ?thesis
      by (simp add: send_tokens_unsupported)
  qed
qed

section \<open>Failures of the external tool\<close>

text \<open>
  C5. When the external tool completes, \<open>dfx_call\<close> returns its standard output,
  stripped, if the exit code is 0, and \<open>ERROR: \<close> followed by its stripped standard
  error otherwise. When a command of the script has run the tool and the tool has
  exited with a code other than 0, the last line the script prints ends with that error
  text, and the script's own exit status is 0.
\<close>

theorem tool_failure_is_printed:
  "(run (dfx_cmd meth args is_query) 120 = Inr result \<longrightarrow>
      snd (dfx_call run meth args is_query) =
        Inr (if returncode result = 0 then strip (stdout result)
             else ''ERROR: '' @ strip (stderr result)))
   \<and> (invocations (fst (main run argv)) = [cmd] \<and> run cmd 120 = Inr r \<and> returncode r \<noteq> 0 \<longrightarrow>
        snd (main run argv) = Exit 0
        \<and> (\<exists>pre. last (fst (main run argv)) = Print (pre @ ''ERROR: '' @ strip (stderr r))))"
proof (rule conjI)
  show "run (dfx_cmd meth args is_query) 120 = Inr result \<longrightarrow>
      snd (dfx_call run meth args is_query) =
        Inr (if returncode result = 0 then strip (stdout result)
             else ''ERROR: '' @ strip (stderr result))"
    by (simp add: snd_dfx_call dfx_output_def)
next
  show "invocations (fst (main run argv)) = [cmd] \<and> run cmd 120 = Inr r \<and> returncode r \<noteq> 0 \<longrightarrow>
        snd (main run argv) = Exit 0
        \<and> (\<exists>pre. last (fst (main run argv)) = Print (pre @ ''ERROR: '' @ strip (stderr r)))"
  proof (rule impI)
    assume a: "invocations (fst (main run argv)) = [cmd] \<and> run cmd 120 = Inr r
        \<and> returncode r \<noteq> 0"
    then have "single_call run (main run argv)"
      using main_single[of run argv] by simp
    with a have "snd (main run argv) = Exit 0
        \<and> (\<exists>pre. last (fst (main run argv)) = Print (pre @ dfx_output r))"
      using single_call_invocations by blast
    with a show "snd (main run argv) = Exit 0
          \<and> (\<exists>pre. last (fst (main run argv)) = Print (pre @ ''ERROR: '' @ strip (stderr r)))"
      by (simp add: dfx_output_def)
  qed
qed

text \<open>The theorem at \<open>balance sol\<close>, with a tool that exits with code 1.\<close>

theorem tool_failure_is_printed_witness:
  "tool_returning (Inr sample_fail) (dfx_cmd ''getMySolanaBalance'' ''()'' False) 120 = Inr sample_fail
   \<and> snd (dfx_call (tool_returning (Inr sample_fail)) ''getMySolanaBalance'' ''()'' False) =
       Inr ''ERROR: Error: rejected''
   \<and> invocations (fst (main (tool_returning (Inr sample_fail)) [''wallet_commands.py'', ''balance'', ''sol''])) =
       [dfx_cmd ''getMySolanaBalance'' ''()'' False]
   \<and> returncode sample_fail \<noteq> 0
   \<and> snd (main (tool_returning (Inr sample_fail)) [''wallet_commands.py'', ''balance'', ''sol'']) = Exit 0
   \<and> (\<exists>pre. last (fst (main (tool_returning (Inr sample_fail))
                    [''wallet_commands.py'', ''balance'', ''sol''])) =
          Print (pre @ ''ERROR: '' @ strip (stderr sample_fail)))"
proof -
  have h1: "tool_returning (Inr sample_fail) (dfx_cmd ''getMySolanaBalance'' ''()'' False) 120 =
      Inr sample_fail"
    by (simp add: tool_returning_def)
  have h2: "invocations (fst (main (tool_returning (Inr sample_fail))
      [''wallet_commands.py'', ''balance'', ''sol''])) = [dfx_cmd ''getMySolanaBalance'' ''()'' False]"
    by (simp add: main_def Let_def lower_balance finish_fst get_balance_sol io_simps
          invocations_simps split: sum.splits)
  have h3: "returncode sample_fail \<noteq> 0"
    by (simp add: sample_fail_def)
  have h4: "(if returncode sample_fail = 0 then strip (stdout sample_fail)
             else ''ERROR: '' @ strip (stderr sample_fail)) = ''ERROR: Error: rejected''"
    using dfx_output_sample_fail by (simp add: dfx_output_def split: if_splits)
  show ?thesis
    using tool_failure_is_printed [of "tool_returning (Inr sample_fail)" "''getMySolanaBalance''"
        "''()''" False sample_fail "[''wallet_commands.py'', ''balance'', ''sol'']"
        "dfx_cmd ''getMySolanaBalance'' ''()'' False" sample_fail]
      h1 h2 h3 h4
    by simp
qed

section \<open>Timeout\<close>

text \<open>
  C8. Every run of the external tool has the timeout 120 seconds. When a command of the
  script has run the tool and the run raised \<open>TimeoutExpired\<close>, nothing catches it: the
  script ends with that exception uncaught, and the run is the last event of the trace,
  so nothing is printed after it.
\<close>

theorem timeout_uncaught:
  "set (timeouts (fst (main run argv))) \<subseteq> {120}
   \<and> (invocations (fst (main run argv)) = [cmd] \<and> run cmd 120 = Inl TimeoutExpired \<longrightarrow>
        snd (main run argv) = Uncaught TimeoutExpired
        \<and> last (fst (main run argv)) = Run cmd 120)"
proof (rule conjI)
  show "set (timeouts (fst (main run argv))) \<subseteq> {120}"
    using main_single[of run argv]
    by (auto simp: single_call_timeouts no_invocations_no_timeouts)
next
  show "invocations (fst (main run argv)) = [cmd] \<and> run cmd 120 = Inl TimeoutExpired \<longrightarrow>
        snd (main run argv) = Uncaught TimeoutExpired
        \<and> last (fst (main run argv)) = Run cmd 120"
  proof (rule impI)
    assume a: "invocations (fst (main run argv)) = [cmd] \<and> run cmd 120 = Inl TimeoutExpired"
    then have "single_call run (main run argv)"
      using main_single[of run argv] by simp
    with a show "snd (main run argv) = Uncaught TimeoutExpired
          \<and> last (fst (main run argv)) = Run cmd 120"
      using single_call_invocations by blast
  qed
qed

text \<open>The theorem at \<open>balance sol\<close>, with a tool that times out.\<close>

theorem timeout_uncaught_witness:
  "invocations (fst (main (tool_returning (Inl TimeoutExpired))
      [''wallet_commands.py'', ''balance'', ''sol''])) = [dfx_cmd ''getMySolanaBalance'' ''()'' False]
   \<and> tool_returning (Inl TimeoutExpired) (dfx_cmd ''getMySolanaBalance'' ''()'' False) 120 =
       Inl TimeoutExpired
   \<and> main (tool_returning (Inl TimeoutExpired)) [''wallet_commands.py'', ''balance'', ''sol''] =
       ([Run (dfx_cmd ''getMySolanaBalance'' ''()'' False) 120], Uncaught TimeoutExpired)"
proof -
  have h1: "invocations (fst (main (tool_returning (Inl TimeoutExpired))
      [''wallet_commands.py'', ''balance'', ''sol''])) = [dfx_cmd ''getMySolanaBalance'' ''()'' False]"
    by (simp add: main_def Let_def lower_balance finish_fst get_balance_sol io_simps
          invocations_simps split: sum.splits)
  have h2: "tool_returning (Inl TimeoutExpired) (dfx_cmd ''getMySolanaBalance'' ''()'' False) 120 =
       Inl TimeoutExpired"
    by (simp add: tool_returning_def)
  have h3: "fst (main (tool_returning (Inl TimeoutExpired)) [''wallet_commands.py'', ''balance'', ''sol''])
      = [Run (dfx_cmd ''getMySolanaBalance'' ''()'' False) 120]"
    by (simp add: main_def Let_def lower_balance finish_fst get_balance_sol io_simps
          tool_returning_def)
  have "snd (main (tool_returning (Inl TimeoutExpired)) [''wallet_commands.py'', ''balance'', ''sol''])
      = Uncaught TimeoutExpired"
    using timeout_uncaught [of "tool_returning (Inl TimeoutExpired)"
        "[''wallet_commands.py'', ''balance'', ''sol'']" "dfx_cmd ''getMySolanaBalance'' ''()'' False"]
      h1 h2
    by blast
  with h1 h2 h3 show ?thesis
    by (simp add: prod_eq_iff)
qed

end
